theory Spec2Isabelle
  imports Complex_Main
begin

section \<open>Python values, strings and errors\<close>

text \<open>
  The program is \<^verbatim>\<open>src/movie.py\<close>. Python raises exceptions; the model returns them as
  values: every function that can raise has the result type \<open>py_error + 'a\<close>, with
  \<open>Inl\<close> for the exception that leaves the function.
\<close>

datatype py_error =
    AttributeError | TypeError | KeyError | ValueError | JSONDecodeError | IndexError
  | RecursionError

text \<open>
  A Python \<^verbatim>\<open>str\<close> is the sequence of its Unicode code points. \<open>str\<close> writes a text
  of the first 256 code points as a literal.
\<close>

type_synonym ustr = "nat list"

definition str :: "string \<Rightarrow> ustr" where
  "str s = map of_char s"

text \<open>
  What the program takes from its libraries and the model does not hold: how
  \<^verbatim>\<open>str.lower\<close> lowercases a text with characters outside ASCII, which code points
  outside ASCII the pattern \<^verbatim>\<open>\w\<close> matches, the English stop words of scikit-learn,
  and how many lists and dictionaries \<^verbatim>\<open>json.loads\<close> may nest before the interpreter
  raises \<^verbatim>\<open>RecursionError\<close>. They are parameters of the model.
\<close>

record library =
  unicode_lower :: "ustr \<Rightarrow> ustr"
  unicode_word :: "nat \<Rightarrow> bool"
  english_stop_words :: "ustr list"
  recursion_limit :: nat

text \<open>
  \<^verbatim>\<open>str.lower\<close>: on a text of ASCII characters the letters A..Z become a..z and
  nothing else changes; any other text is lowercased as the library has it.
\<close>

definition ascii_lower :: "nat \<Rightarrow> nat" where
  "ascii_lower c = (if 65 \<le> c \<and> c \<le> 90 then c + 32 else c)"

definition lower :: "('z library_scheme) \<Rightarrow> ustr \<Rightarrow> ustr" where
  "lower L s = (if list_all (\<lambda>c. c < 128) s then map ascii_lower s else unicode_lower L s)"

section \<open>Parsed values and \<^verbatim>\<open>json.loads\<close>\<close>

text \<open>
  The values \<^verbatim>\<open>json.loads\<close> returns: \<^verbatim>\<open>None\<close>, booleans, integers, floats (kept as
  the text that denotes them: the program never computes with them), strings, lists and
  dictionaries. A dictionary is the list of its items in insertion order, with one item
  for each key.
\<close>

datatype pyval =
    PyNone | PyBool bool | PyInt int | PyFloat ustr | PyStr ustr
  | PyList "pyval list" | PyDict "(ustr \<times> pyval) list"

text \<open>
  The decoder reads the text from left to right and raises at the first place where it
  cannot go on: \<^verbatim>\<open>JSONDecodeError\<close> where the text is not JSON, \<^verbatim>\<open>ValueError\<close> where
  an integer has more digits than \<^verbatim>\<open>int\<close> converts (4300), \<^verbatim>\<open>RecursionError\<close> where
  the lists and dictionaries nest deeper than the interpreter allows. The model keeps
  the stack of the open lists and dictionaries explicitly.

  White space between tokens is a space, a tab, a line feed or a carriage return.
\<close>

definition is_whitespace :: "nat \<Rightarrow> bool" where
  "is_whitespace c = (c \<in> set [0x20, 0x09, 0x0A, 0x0D])"

definition is_digit :: "nat \<Rightarrow> bool" where
  "is_digit c = (48 \<le> c \<and> c \<le> 57)"

text \<open>
  \<^verbatim>\<open>scanstring\<close> reads a string after its opening quote and returns its content and the
  rest of the text. A control character is refused (\<^verbatim>\<open>strict=True\<close>); a backslash
  starts one of the eight simple escapes or \<^verbatim>\<open>\uXXXX\<close> with four hexadecimal digits,
  two of which may form a surrogate pair.
\<close>

definition hex_value :: "nat \<Rightarrow> nat option" where
  "hex_value c =
     (if 48 \<le> c \<and> c \<le> 57 then Some (c - 48)
      else if 97 \<le> c \<and> c \<le> 102 then Some (c - 87)
      else if 65 \<le> c \<and> c \<le> 70 then Some (c - 55)
      else None)"

fun hex4 :: "ustr \<Rightarrow> (nat \<times> ustr) option" where
  "hex4 (a # b # c # d # rest) =
     (case (hex_value a, hex_value b, hex_value c, hex_value d) of
        (Some x, Some y, Some z, Some w) \<Rightarrow> Some (((x * 16 + y) * 16 + z) * 16 + w, rest)
      | _ \<Rightarrow> None)"
| "hex4 _ = None"

definition scan_unicode :: "ustr \<Rightarrow> (nat \<times> ustr) option" where
  "scan_unicode s =
     (case hex4 s of
        None \<Rightarrow> None
      | Some (hi, r) \<Rightarrow>
          (if 0xD800 \<le> hi \<and> hi \<le> 0xDBFF \<and> take 2 r = [0x5C, 0x75] then
             (case hex4 (drop 2 r) of
                None \<Rightarrow> None
              | Some (lo, r') \<Rightarrow>
                  if 0xDC00 \<le> lo \<and> lo \<le> 0xDFFF
                  then Some (0x10000 + (hi - 0xD800) * 0x400 + (lo - 0xDC00), r')
                  else Some (hi, r))
           else Some (hi, r)))"

definition backslash :: "(nat \<times> nat) list" where
  "backslash =
     [(0x22, 0x22), (0x5C, 0x5C), (0x2F, 0x2F), (0x62, 0x08), (0x66, 0x0C), (0x6E, 0x0A),
      (0x72, 0x0D), (0x74, 0x09)]"

lemma hex4_length: "hex4 s = Some (n, r) \<Longrightarrow> length r < length s"
  by (induction s rule: hex4.induct) (auto split: option.splits)

lemma scan_unicode_length:
  "scan_unicode s = Some (u, r) \<Longrightarrow> length r < length s"
  by (fastforce simp: scan_unicode_def split: option.splits if_splits dest: hex4_length)

function scanstring :: "ustr \<Rightarrow> (ustr \<times> ustr) option" where
  "scanstring [] = None"
| "scanstring (c # cs) =
     (if c = 0x22 then Some ([], cs)
      else if c = 0x5C then
        (case cs of
           [] \<Rightarrow> None
         | e # es \<Rightarrow>
             if e = 0x75 then
               (case scan_unicode es of
                  None \<Rightarrow> None
                | Some (u, r) \<Rightarrow> map_option (\<lambda>(s, r'). (u # s, r')) (scanstring r))
             else
               (case map_of backslash e of
                  None \<Rightarrow> None
                | Some d \<Rightarrow> map_option (\<lambda>(s, r'). (d # s, r')) (scanstring es)))
      else if c < 0x20 then None
      else map_option (\<lambda>(s, r'). (c # s, r')) (scanstring cs))"
  by pat_completeness auto
termination
  by (relation "measure length") (auto dest: scan_unicode_length)

lemma scanstring_length:
  "scanstring s = Some (x, r) \<Longrightarrow> length r < length s"
proof (induction s arbitrary: x r rule: scanstring.induct)
  case 1
  then show ?case by simp
next
  case (2 c cs)
  then show ?case
    by (fastforce split: if_splits list.splits option.splits dest: scan_unicode_length)
qed

text \<open>
  A number is an optional minus sign, the integer part (a single 0, or digits that do
  not start with 0), an optional fraction and an optional exponent, each of the last two
  only when a digit follows. Each of the four functions splits the text into the part it
  takes and the rest. Without fraction and exponent the number is an integer, and
  \<^verbatim>\<open>int\<close> refuses more than 4300 digits with \<^verbatim>\<open>ValueError\<close>.
\<close>

definition sign_span :: "ustr \<Rightarrow> ustr \<times> ustr" where
  "sign_span s = (case s of c # cs \<Rightarrow> if c = 0x2D then ([c], cs) else ([], s) | [] \<Rightarrow> ([], s))"

definition int_span :: "ustr \<Rightarrow> ustr \<times> ustr" where
  "int_span s =
     (case s of
        [] \<Rightarrow> ([], s)
      | c # cs \<Rightarrow> if c = 0x30 then ([c], cs) else (takeWhile is_digit s, dropWhile is_digit s))"

definition frac_span :: "ustr \<Rightarrow> ustr \<times> ustr" where
  "frac_span s =
     (case s of
        c # d # cs \<Rightarrow>
          if c = 0x2E \<and> is_digit d
          then (c # takeWhile is_digit (d # cs), dropWhile is_digit (d # cs))
          else ([], s)
      | _ \<Rightarrow> ([], s))"

definition exp_span :: "ustr \<Rightarrow> ustr \<times> ustr" where
  "exp_span s =
     (case s of
        [] \<Rightarrow> ([], s)
      | e # cs \<Rightarrow>
          if e = 0x65 \<or> e = 0x45 then
            (let (sgn, r) =
               (case cs of
                  [] \<Rightarrow> ([], cs)
                | c # cs' \<Rightarrow> if c = 0x2B \<or> c = 0x2D then ([c], cs') else ([], cs))
             in if takeWhile is_digit r = [] then ([], s)
                else (e # sgn @ takeWhile is_digit r, dropWhile is_digit r))
          else ([], s))"

definition int_of_digits :: "ustr \<Rightarrow> int" where
  "int_of_digits ds = foldl (\<lambda>n c. 10 * n + (int c - 48)) 0 ds"

definition int_max_str_digits :: nat where
  "int_max_str_digits = 4300"

definition match_number :: "ustr \<Rightarrow> py_error + pyval \<times> ustr" where
  "match_number s =
     (let (sgn, s1) = sign_span s;
          (ipart, s2) = int_span s1;
          (frac, s3) = frac_span s2;
          (ex, s4) = exp_span s3
      in if ipart = [] then Inl JSONDecodeError
         else if frac = [] \<and> ex = [] then
           (if int_max_str_digits < length ipart then Inl ValueError
            else Inr (PyInt ((if sgn = [] then 1 else - 1) * int_of_digits ipart), s4))
         else Inr (PyFloat (sgn @ ipart @ frac @ ex), s4))"

text \<open>
  The literals are \<^verbatim>\<open>null\<close>, \<^verbatim>\<open>true\<close>, \<^verbatim>\<open>false\<close> and the three that Python adds:
  \<^verbatim>\<open>NaN\<close>, \<^verbatim>\<open>Infinity\<close> and \<^verbatim>\<open>-Infinity\<close>.
\<close>

definition literals :: "(ustr \<times> pyval) list" where
  "literals =
     [(str ''null'', PyNone), (str ''true'', PyBool True), (str ''false'', PyBool False),
      (str ''NaN'', PyFloat (str ''nan'')), (str ''Infinity'', PyFloat (str ''inf'')),
      (str ''-Infinity'', PyFloat (str ''-inf''))]"

definition scan_atom :: "ustr \<Rightarrow> py_error + pyval \<times> ustr" where
  "scan_atom s =
     (case filter (\<lambda>(w, v). take (length w) s = w) literals of
        (w, v) # _ \<Rightarrow> Inr (v, drop (length w) s)
      | [] \<Rightarrow> match_number s)"

text \<open>
  The stack holds the lists and dictionaries that are open: a list with its elements so
  far, last first; a dictionary with its items and the key that waits for its value. A
  dictionary keeps one item for each key: a key that comes again replaces the value in
  place. Beside the stack the decoder knows what may come next.
\<close>

datatype container = OpenList "pyval list" | OpenDict "(ustr \<times> pyval) list" "ustr option"

datatype expecting =
    Value | ValueOrClose | KeyOrClose | Key | ColonSign | Separator | Finished pyval

fun dict_set :: "(ustr \<times> pyval) list \<Rightarrow> ustr \<Rightarrow> pyval \<Rightarrow> (ustr \<times> pyval) list" where
  "dict_set [] k v = [(k, v)]"
| "dict_set ((k', v') # ps) k v =
     (if k' = k then (k', v) # ps else (k', v') # dict_set ps k v)"

text \<open>A value that is complete goes to the container on top of the stack.\<close>

fun deliver :: "pyval \<Rightarrow> container list \<Rightarrow> py_error + container list \<times> expecting" where
  "deliver v [] = Inr ([], Finished v)"
| "deliver v (OpenList vs # stack) = Inr (OpenList (v # vs) # stack, Separator)"
| "deliver v (OpenDict ps (Some k) # stack) =
     Inr (OpenDict (dict_set ps k v) None # stack, Separator)"
| "deliver v (OpenDict ps None # stack) = Inl JSONDecodeError"

definition with_rest ::
  "py_error + container list \<times> expecting \<Rightarrow> ustr \<Rightarrow>
   py_error + container list \<times> expecting \<times> ustr" where
  "with_rest r rest = (case r of Inl e \<Rightarrow> Inl e | Inr (stack, ex) \<Rightarrow> Inr (stack, ex, rest))"

text \<open>
  Where a value may start: a string, a dictionary, a list (each of the last two only
  when the interpreter allows one more level), or a literal or a number.
\<close>

definition scan_once ::
  "nat \<Rightarrow> container list \<Rightarrow> nat \<Rightarrow> ustr \<Rightarrow> py_error + container list \<times> expecting \<times> ustr" where
  "scan_once limit stack c cs =
     (if c = 0x22 then
        (case scanstring cs of
           None \<Rightarrow> Inl JSONDecodeError
         | Some (x, r) \<Rightarrow> with_rest (deliver (PyStr x) stack) r)
      else if c = 0x7B then
        (if limit \<le> length stack then Inl RecursionError
         else Inr (OpenDict [] None # stack, KeyOrClose, cs))
      else if c = 0x5B then
        (if limit \<le> length stack then Inl RecursionError
         else Inr (OpenList [] # stack, ValueOrClose, cs))
      else
        (case scan_atom (c # cs) of
           Inl e \<Rightarrow> Inl e
         | Inr (v, r) \<Rightarrow> with_rest (deliver v stack) r))"

definition scan_key ::
  "container list \<Rightarrow> ustr \<Rightarrow> py_error + container list \<times> expecting \<times> ustr" where
  "scan_key stack cs =
     (case (scanstring cs, stack) of
        (Some (k, r), OpenDict ps None # stack') \<Rightarrow> Inr (OpenDict ps (Some k) # stack', ColonSign, r)
      | _ \<Rightarrow> Inl JSONDecodeError)"

definition close_container ::
  "container list \<Rightarrow> nat \<Rightarrow> ustr \<Rightarrow> py_error + container list \<times> expecting \<times> ustr" where
  "close_container stack c cs =
     (case stack of
        OpenList vs # stack' \<Rightarrow>
          if c = 0x5D then with_rest (deliver (PyList (rev vs)) stack') cs
          else Inl JSONDecodeError
      | OpenDict ps None # stack' \<Rightarrow>
          if c = 0x7D then with_rest (deliver (PyDict ps) stack') cs
          else Inl JSONDecodeError
      | _ \<Rightarrow> Inl JSONDecodeError)"

text \<open>One step of the decoder at a character that is not white space.\<close>

definition next_step ::
  "nat \<Rightarrow> container list \<Rightarrow> expecting \<Rightarrow> nat \<Rightarrow> ustr \<Rightarrow>
   py_error + container list \<times> expecting \<times> ustr" where
  "next_step limit stack ex c cs =
     (case ex of
        Value \<Rightarrow> scan_once limit stack c cs
      | ValueOrClose \<Rightarrow>
          if c = 0x5D then close_container stack c cs else scan_once limit stack c cs
      | KeyOrClose \<Rightarrow>
          if c = 0x22 then scan_key stack cs
          else if c = 0x7D then close_container stack c cs
          else Inl JSONDecodeError
      | Key \<Rightarrow> if c = 0x22 then scan_key stack cs else Inl JSONDecodeError
      | ColonSign \<Rightarrow> if c = 0x3A then Inr (stack, Value, cs) else Inl JSONDecodeError
      | Separator \<Rightarrow>
          if c = 0x2C then
            (case stack of
               OpenList vs # _ \<Rightarrow> Inr (stack, Value, cs)
             | OpenDict ps None # _ \<Rightarrow> Inr (stack, Key, cs)
             | _ \<Rightarrow> Inl JSONDecodeError)
          else close_container stack c cs
      | Finished v \<Rightarrow> Inl JSONDecodeError)"

text \<open>
  What the scanner of numbers and literals takes holds no backslash, no double quote and
  no apostrophe.
\<close>

definition plain :: "nat \<Rightarrow> bool" where
  "plain c = (c \<noteq> 0x5C \<and> c \<noteq> 0x22 \<and> c \<noteq> 0x27)"

lemma plain_digits: "list_all plain (takeWhile is_digit s)"
  by (induction s) (auto simp: is_digit_def plain_def)

lemma sign_span_append: "sign_span s = (p, r) \<Longrightarrow> s = p @ r \<and> list_all plain p"
  by (auto simp: sign_span_def plain_def split: list.splits if_splits)

lemma int_span_append: "int_span s = (p, r) \<Longrightarrow> s = p @ r \<and> list_all plain p"
proof (cases s)
  case Nil
  assume "int_span s = (p, r)"
  with Nil show ?thesis by (simp add: int_span_def)
next
  case (Cons c cs)
  assume a: "int_span s = (p, r)"
  show ?thesis
  proof (cases "c = 0x30")
    case True
    with a Cons show ?thesis by (auto simp: int_span_def plain_def)
  next
    case False
    with a Cons have "p = takeWhile is_digit s" "r = dropWhile is_digit s"
      by (auto simp: int_span_def)
    then show ?thesis using plain_digits [of s] by simp
  qed
qed

lemma frac_span_append: "frac_span s = (p, r) \<Longrightarrow> s = p @ r \<and> list_all plain p"
proof -
  assume a: "frac_span s = (p, r)"
  show ?thesis
  proof (cases "\<exists>c d cs. s = c # d # cs \<and> c = 0x2E \<and> is_digit d")
    case True
    then obtain d cs where s: "s = 0x2E # d # cs" and d: "is_digit d" by blast
    with a have p: "p = 0x2E # takeWhile is_digit (d # cs)"
      and r: "r = dropWhile is_digit (d # cs)"
      by (simp_all add: frac_span_def)
    have "list_all plain p"
      unfolding p using plain_digits [of "d # cs"] by (simp add: plain_def)
    moreover have "s = p @ r"
      unfolding p r s by (simp only: append_Cons takeWhile_dropWhile_id)
    ultimately show ?thesis by simp
  next
    case False
    with a have "p = []" "r = s"
      by (auto simp: frac_span_def split: list.splits if_splits)
    then show ?thesis by simp
  qed
qed

lemma exp_span_append: "exp_span s = (p, r) \<Longrightarrow> s = p @ r \<and> list_all plain p"
proof (cases s)
  case Nil
  assume "exp_span s = (p, r)"
  with Nil show ?thesis by (simp add: exp_span_def)
next
  case (Cons e cs)
  assume a: "exp_span s = (p, r)"
  define sr where "sr =
    (case cs of [] \<Rightarrow> ([], cs)
     | c # cs' \<Rightarrow> if c = 0x2B \<or> c = 0x2D then ([c], cs') else ([], cs))"
  obtain sgn t where sr: "sr = (sgn, t)" by (cases sr)
  have split: "cs = sgn @ t" and sp: "list_all plain sgn"
    using sr by (auto simp: sr_def plain_def split: list.splits if_splits)
  show ?thesis
  proof (cases "(e = 0x65 \<or> e = 0x45) \<and> takeWhile is_digit t \<noteq> []")
    case True
    with a Cons sr have p: "p = e # sgn @ takeWhile is_digit t"
      and r: "r = dropWhile is_digit t"
      by (auto simp: exp_span_def sr_def [symmetric])
    from True have "plain e" by (auto simp: plain_def)
    with sp plain_digits [of t] have "list_all plain p" by (simp add: p)
    moreover have "s = p @ r"
      unfolding p r Cons split by simp
    ultimately show ?thesis by simp
  next
    case False
    with a Cons sr have "p = []" "r = s"
      by (auto simp: exp_span_def sr_def [symmetric] split: if_splits)
    then show ?thesis by simp
  qed
qed

lemma match_number_append:
  "match_number s = Inr (v, r) \<Longrightarrow> \<exists>p. s = p @ r \<and> p \<noteq> [] \<and> list_all plain p"
proof -
  assume a: "match_number s = Inr (v, r)"
  obtain sgn s1 where 1: "sign_span s = (sgn, s1)" by (cases "sign_span s")
  obtain ipart s2 where 2: "int_span s1 = (ipart, s2)" by (cases "int_span s1")
  obtain frac s3 where 3: "frac_span s2 = (frac, s3)" by (cases "frac_span s2")
  obtain ex s4 where 4: "exp_span s3 = (ex, s4)" by (cases "exp_span s3")
  from a 1 2 3 4 have r: "r = s4" and ne: "ipart \<noteq> []"
    by (auto simp: match_number_def split: if_splits)
  from sign_span_append [OF 1] int_span_append [OF 2] frac_span_append [OF 3]
    exp_span_append [OF 4]
  have "s = (sgn @ ipart @ frac @ ex) @ s4" "list_all plain (sgn @ ipart @ frac @ ex)"
    by simp_all
  with r ne show ?thesis by blast
qed

lemma scan_atom_append:
  "scan_atom s = Inr (v, r) \<Longrightarrow> \<exists>p. s = p @ r \<and> p \<noteq> [] \<and> list_all plain p"
proof -
  assume a: "scan_atom s = Inr (v, r)"
  show ?thesis
  proof (cases "filter (\<lambda>(w, v). take (length w) s = w) literals")
    case Nil
    with a show ?thesis by (auto simp: scan_atom_def dest: match_number_append)
  next
    case (Cons wv rest)
    obtain w v' where wv: "wv = (w, v')" by (cases wv)
    from Cons wv have "(w, v') \<in> set (filter (\<lambda>(w, v). take (length w) s = w) literals)"
      by simp
    then have t: "take (length w) s = w" and m: "(w, v') \<in> set literals" by auto
    from m have "w \<noteq> [] \<and> list_all plain w"
      by (auto simp: literals_def str_def plain_def)
    moreover from a Cons wv have "r = drop (length w) s" by (simp add: scan_atom_def)
    moreover from t have "s = w @ drop (length w) s"
      by (metis append_take_drop_id)
    ultimately show ?thesis by metis
  qed
qed

lemma scan_atom_length: "scan_atom s = Inr (v, r) \<Longrightarrow> length r < length s"
  by (auto dest!: scan_atom_append)

lemma with_rest_Inr: "with_rest x rest = Inr (stack, ex, r) \<Longrightarrow> r = rest"
  by (auto simp: with_rest_def split: sum.splits)

lemma next_step_length:
  "next_step limit stack ex c cs = Inr (stack', ex', r) \<Longrightarrow> length r \<le> length cs"
  by (auto simp: next_step_def scan_once_def scan_key_def close_container_def
      split: expecting.splits if_splits option.splits sum.splits list.splits container.splits
      dest!: with_rest_Inr scanstring_length scan_atom_length)

text \<open>
  The decoder: white space is skipped, every other character starts a step, and at the
  end of the text the value must be complete.
\<close>

function decode :: "nat \<Rightarrow> container list \<Rightarrow> expecting \<Rightarrow> ustr \<Rightarrow> py_error + pyval" where
  "decode limit stack ex [] = (case ex of Finished v \<Rightarrow> Inr v | _ \<Rightarrow> Inl JSONDecodeError)"
| "decode limit stack ex (c # cs) =
     (if is_whitespace c then decode limit stack ex cs
      else case next_step limit stack ex c cs of
        Inl e \<Rightarrow> Inl e
      | Inr (stack', ex', r) \<Rightarrow> decode limit stack' ex' r)"
  by pat_completeness auto
termination
  by (relation "measure (\<lambda>(limit, stack, ex, s). length s)")
     (auto dest: next_step_length)

text \<open>
  \<^verbatim>\<open>json.loads\<close> on a text: a byte order mark at the start is refused, and the whole
  text must be one value, with white space around it at most.
\<close>

definition json_loads :: "('z library_scheme) \<Rightarrow> ustr \<Rightarrow> py_error + pyval" where
  "json_loads L s =
     (if take 1 s = [0xFEFF] then Inl JSONDecodeError
      else decode (recursion_limit L) [] Value s)"

section \<open>Quotes in a text that \<^verbatim>\<open>json.loads\<close> accepts\<close>














text \<open>
  Replacing every apostrophe by a double quote keeps the marks, and leaves no
  apostrophe.
\<close>

definition substitute :: "ustr \<Rightarrow> ustr" where
  "substitute s = map (\<lambda>c. if c = 0x27 then 0x22 else c) s"




section \<open>The title index (\<^verbatim>\<open>create_recommendation_engine\<close>, line 92)\<close>

text \<open>
  A cell of a data frame as \<^verbatim>\<open>pandas.read_csv\<close> delivers it: a missing value
  (\<^verbatim>\<open>NaN\<close>), a text, or a number or a truth value (when the column of the file holds
  only such values). The titles are cells as well: a film of the file may have none.
\<close>

datatype cell = CellNaN | CellStr ustr | CellInt int | CellBool bool

text \<open>
  A \<^verbatim>\<open>pandas.Series\<close> is a sequence of values, each with an index label; labels may
  repeat. It is modelled as the list of (label, value) pairs in order.
\<close>

type_synonym 'v series = "(cell \<times> 'v) list"

text \<open>
  \<^verbatim>\<open>Series.drop_duplicates()\<close> (default \<^verbatim>\<open>keep='first'\<close>) removes the entries whose
  \<^emph>\<open>value\<close> has occurred before; it does not look at the index labels.
\<close>

fun drop_duplicates_seen :: "'v list \<Rightarrow> 'v series \<Rightarrow> 'v series" where
  "drop_duplicates_seen seen [] = []"
| "drop_duplicates_seen seen ((k, v) # ps) =
     (if v \<in> set seen then drop_duplicates_seen seen ps
      else (k, v) # drop_duplicates_seen (v # seen) ps)"

definition drop_duplicates :: "'v series \<Rightarrow> 'v series" where
  "drop_duplicates s = drop_duplicates_seen [] s"

text \<open>
  \<^verbatim>\<open>indices = pd.Series(df.index, index=df['title']).drop_duplicates()\<close>: the values
  are the row labels \<open>0 .. n-1\<close> of the data frame, the index labels are the titles.
\<close>

definition title_indices :: "cell list \<Rightarrow> nat series" where
  "title_indices titles = drop_duplicates (zip titles [0..<length titles])"

text \<open>\<^verbatim>\<open>title in indices\<close> asks whether the text occurs among the labels.\<close>

definition series_contains :: "'v series \<Rightarrow> ustr \<Rightarrow> bool" where
  "series_contains s k = (CellStr k \<in> set (map fst s))"

text \<open>\<^verbatim>\<open>indices.keys()\<close> is the index: every label, repeated ones included, in order.\<close>

definition keys :: "'v series \<Rightarrow> cell list" where
  "keys s = map fst s"

text \<open>
  \<^verbatim>\<open>indices[title]\<close>: a label that occurs once gives its value, a label that occurs
  several times gives the sub-series of all its values, a label that does not occur
  raises \<^verbatim>\<open>KeyError\<close>.
\<close>

datatype 'v getitem = Scalar 'v | SubSeries "'v list"

definition series_getitem :: "'v series \<Rightarrow> ustr \<Rightarrow> py_error + 'v getitem" where
  "series_getitem s k =
     (case map snd (filter (\<lambda>p. fst p = CellStr k) s) of
        [] \<Rightarrow> Inl KeyError
      | [v] \<Rightarrow> Inr (Scalar v)
      | v # w # vs \<Rightarrow> Inr (SubSeries (v # w # vs)))"

section \<open>The query engine (\<^verbatim>\<open>get_recommendations\<close>, lines 95-108)\<close>

text \<open>
  Line 98, \<^verbatim>\<open>[t for t in indices.keys() if t.lower() == title.lower()]\<close>: every label
  is asked for its method \<^verbatim>\<open>lower\<close>, which only a text has; on a missing title (a
  float) the lookup raises \<^verbatim>\<open>AttributeError\<close>.
\<close>

fun matching_titles :: "('z library_scheme) \<Rightarrow> ustr \<Rightarrow> cell list \<Rightarrow> py_error + ustr list" where
  "matching_titles L title [] = Inr []"
| "matching_titles L title (t # ts) =
     (case t of
        CellStr s \<Rightarrow>
          (case matching_titles L title ts of
             Inl e \<Rightarrow> Inl e
           | Inr ms \<Rightarrow> Inr (if lower L s = lower L title then s # ms else ms))
      | _ \<Rightarrow> Inl AttributeError)"

text \<open>
  \<^verbatim>\<open>sorted(xs, key=f, reverse=True)\<close> is stable: entries with equal keys keep their
  original order. CPython reverses the list, sorts it stably in ascending order and
  reverses it again; \<open>sort_key\<close> is a stable insertion sort.
\<close>

definition sorted_reverse :: "('a \<Rightarrow> 'k::linorder) \<Rightarrow> 'a list \<Rightarrow> 'a list" where
  "sorted_reverse f xs = rev (sort_key f (rev xs))"

text \<open>\<^verbatim>\<open>df['title'].iloc[positions].tolist()\<close>: a position out of range raises.\<close>

definition iloc :: "'a list \<Rightarrow> nat list \<Rightarrow> py_error + 'a list" where
  "iloc col positions =
     (if list_all (\<lambda>i. i < length col) positions
      then Inr (map (\<lambda>i. col ! i) positions) else Inl IndexError)"

text \<open>
  The function returns either a message (a \<^verbatim>\<open>str\<close>) or the list of titles; the caller
  tells them apart with \<^verbatim>\<open>isinstance(recommendations, list)\<close>.
\<close>

datatype recommendations = Message ustr | Titles "cell list"

definition not_found_message :: "ustr \<Rightarrow> ustr" where
  "not_found_message title =
     str ''Sorry, the movie '' @ [0x27] @ title @ [0x27] @
     str '' was not found in our database.''"

text \<open>
  The similarity scores are numbers that the function only compares; they are modelled
  by any linear order \<open>'s\<close>. \<open>cosine_sim\<close> is the matrix as the list of its rows,
  \<open>df_title\<close> the column \<^verbatim>\<open>df['title']\<close>.

  When the title occurs several times in \<open>indices\<close>, \<^verbatim>\<open>idx\<close> is a sub-series,
  \<^verbatim>\<open>cosine_sim[idx]\<close> is a matrix of several rows, \<^verbatim>\<open>enumerate\<close> pairs each row (an
  array) with its position, and \<^verbatim>\<open>sorted\<close> compares two arrays with \<^verbatim>\<open><\<close>: the truth
  value of the resulting array is ambiguous and numpy raises \<^verbatim>\<open>ValueError\<close> (the rows of
  a similarity matrix of a corpus with a repeated title have at least two entries).
\<close>

definition get_recommendations ::
  "('z library_scheme) \<Rightarrow> ustr \<Rightarrow> ('s::linorder) list list \<Rightarrow> nat series \<Rightarrow> cell list \<Rightarrow>
   py_error + recommendations" where
  "get_recommendations L title cosine_sim indices df_title =
     (case
        (if \<not> series_contains indices title then
           (case matching_titles L title (keys indices) of
              Inl e \<Rightarrow> Inl e
            | Inr [] \<Rightarrow> Inr None
            | Inr (t # _) \<Rightarrow> Inr (Some t))
         else Inr (Some title)) of
        Inl e \<Rightarrow> Inl e
      | Inr None \<Rightarrow> Inr (Message (not_found_message title))
      | Inr (Some title') \<Rightarrow>
          (case series_getitem indices title' of
             Inl e \<Rightarrow> Inl e
           | Inr (SubSeries idxs) \<Rightarrow>
               (if list_all (\<lambda>i. i < length cosine_sim) idxs
                then Inl ValueError else Inl IndexError)
           | Inr (Scalar idx) \<Rightarrow>
               (if idx < length cosine_sim then
                  (let sim_scores = enumerate 0 (cosine_sim ! idx);
                       sim_scores = sorted_reverse snd sim_scores;
                       sim_scores = take 10 (drop 1 sim_scores);
                       movie_indices = map fst sim_scores
                   in case iloc df_title movie_indices of
                        Inl e \<Rightarrow> Inl e
                      | Inr titles \<Rightarrow> Inr (Titles titles))
                else Inl IndexError)))"

section \<open>Preparing the data (\<^verbatim>\<open>load_and_prepare_data\<close>, lines 38-50)\<close>

definition isna :: "cell \<Rightarrow> bool" where
  "isna data = (case data of CellNaN \<Rightarrow> True | _ \<Rightarrow> False)"

text \<open>
  \<^verbatim>\<open>s.replace(old, new)\<close> for a pattern \<open>old\<close> of one character, as both calls of
  the program have it.
\<close>

definition replace :: "nat \<Rightarrow> ustr \<Rightarrow> ustr \<Rightarrow> ustr" where
  "replace old new s = concat (map (\<lambda>c. if c = old then new else [c]) s)"

text \<open>
  \<^verbatim>\<open>safe_json_loads\<close> (lines 54-61). Only text has a method \<^verbatim>\<open>replace\<close>: on a
  number the attribute lookup raises \<^verbatim>\<open>AttributeError\<close>, inside the \<^verbatim>\<open>try\<close>. The
  handler catches \<^verbatim>\<open>JSONDecodeError\<close> and \<^verbatim>\<open>TypeError\<close> only: every other exception
  leaves the function.
\<close>

definition safe_json_loads :: "('z library_scheme) \<Rightarrow> cell \<Rightarrow> py_error + pyval" where
  "safe_json_loads L data =
     (if isna data then Inr (PyList [])
      else
        (case (case data of
                 CellStr s \<Rightarrow> json_loads L (replace 0x27 [0x22] s)
               | _ \<Rightarrow> Inl AttributeError) of
           Inr v \<Rightarrow> Inr v
         | Inl JSONDecodeError \<Rightarrow> Inr (PyList [])
         | Inl TypeError \<Rightarrow> Inr (PyList [])
         | Inl e \<Rightarrow> Inl e))"

text \<open>
  \<^verbatim>\<open>Series.apply(f)\<close> and a list comprehension apply \<open>f\<close> to the elements in order;
  the first exception leaves the whole computation.
\<close>

definition and_then :: "py_error + 'a \<Rightarrow> ('a \<Rightarrow> py_error + 'b) \<Rightarrow> py_error + 'b" where
  "and_then r f = (case r of Inl e \<Rightarrow> Inl e | Inr x \<Rightarrow> f x)"

fun apply_each :: "('a \<Rightarrow> py_error + 'b) \<Rightarrow> 'a list \<Rightarrow> py_error + 'b list" where
  "apply_each f [] = Inr []"
| "apply_each f (x # xs) =
     (case f x of
        Inl e \<Rightarrow> Inl e
      | Inr y \<Rightarrow> (case apply_each f xs of Inl e \<Rightarrow> Inl e | Inr ys \<Rightarrow> Inr (y # ys)))"

text \<open>
  \<^verbatim>\<open>get_director\<close> (lines 63-69). \<^verbatim>\<open>member.get\<close> exists on dictionaries only;
  \<^verbatim>\<open>member.get('name', '')\<close> is whatever value the key has.
\<close>

fun get_director_loop :: "pyval list \<Rightarrow> py_error + pyval" where
  "get_director_loop [] = Inr (PyStr [])"
| "get_director_loop (member # crew_list) =
     (case member of
        PyDict items \<Rightarrow>
          if map_of items (str ''job'') = Some (PyStr (str ''Director''))
          then Inr (case map_of items (str ''name'') of Some name \<Rightarrow> name | None \<Rightarrow> PyStr [])
          else get_director_loop crew_list
      | _ \<Rightarrow> Inl AttributeError)"

definition get_director :: "pyval \<Rightarrow> py_error + pyval" where
  "get_director crew_list =
     (case crew_list of
        PyList members \<Rightarrow> get_director_loop members
      | _ \<Rightarrow> Inr (PyStr []))"

text \<open>
  \<^verbatim>\<open>i['name']\<close>: a dictionary without the key raises \<^verbatim>\<open>KeyError\<close>, a value that is
  not a dictionary raises \<^verbatim>\<open>TypeError\<close>. Lines 44 and 45 are the two functions below;
  \<^verbatim>\<open>x[:3]\<close> keeps the first three entries.
\<close>

definition subscript_name :: "pyval \<Rightarrow> py_error + pyval" where
  "subscript_name i =
     (case i of
        PyDict items \<Rightarrow>
          (case map_of items (str ''name'') of Some v \<Rightarrow> Inr v | None \<Rightarrow> Inl KeyError)
      | _ \<Rightarrow> Inl TypeError)"

definition entity_names :: "pyval \<Rightarrow> py_error + pyval" where
  "entity_names x =
     (case x of
        PyList xs \<Rightarrow> and_then (apply_each subscript_name xs) (\<lambda>names. Inr (PyList names))
      | _ \<Rightarrow> Inr (PyList []))"

definition cast_names :: "pyval \<Rightarrow> py_error + pyval" where
  "cast_names x =
     (case x of
        PyList xs \<Rightarrow>
          and_then (apply_each subscript_name (take 3 xs)) (\<lambda>names. Inr (PyList names))
      | _ \<Rightarrow> Inr (PyList []))"

text \<open>
  \<^verbatim>\<open>clean_data\<close> (lines 71-78). \<open>normalize_token\<close> is the expression
  \<^verbatim>\<open>str.lower(i.replace(" ", ""))\<close> on a text; on any other value the lookup of
  \<^verbatim>\<open>replace\<close> raises \<^verbatim>\<open>AttributeError\<close>.
\<close>

definition normalize_token :: "('z library_scheme) \<Rightarrow> ustr \<Rightarrow> ustr" where
  "normalize_token L s = lower L (replace 0x20 [] s)"

definition clean_item :: "('z library_scheme) \<Rightarrow> pyval \<Rightarrow> py_error + pyval" where
  "clean_item L i =
     (case i of PyStr s \<Rightarrow> Inr (PyStr (normalize_token L s)) | _ \<Rightarrow> Inl AttributeError)"

definition clean_data :: "('z library_scheme) \<Rightarrow> pyval \<Rightarrow> py_error + pyval" where
  "clean_data L x =
     (case x of
        PyList xs \<Rightarrow> and_then (apply_each (clean_item L) xs) (\<lambda>ys. Inr (PyList ys))
      | PyStr s \<Rightarrow> Inr (PyStr (normalize_token L s))
      | _ \<Rightarrow> Inr (PyStr []))"

text \<open>
  \<^verbatim>\<open>sep.join(x)\<close>: the elements of the list must be texts; a text is joined character
  by character and a dictionary key by key; any other value is not iterable.
\<close>

fun str_join :: "ustr \<Rightarrow> ustr list \<Rightarrow> ustr" where
  "str_join sep [] = []"
| "str_join sep [s] = s"
| "str_join sep (s # t # ss) = s @ sep @ str_join sep (t # ss)"

definition join_item :: "pyval \<Rightarrow> py_error + ustr" where
  "join_item i = (case i of PyStr s \<Rightarrow> Inr s | _ \<Rightarrow> Inl TypeError)"

definition join :: "ustr \<Rightarrow> pyval \<Rightarrow> py_error + ustr" where
  "join sep x =
     (case x of
        PyList xs \<Rightarrow> and_then (apply_each join_item xs) (\<lambda>ss. Inr (str_join sep ss))
      | PyStr s \<Rightarrow> Inr (str_join sep (map (\<lambda>c. [c]) s))
      | PyDict items \<Rightarrow> Inr (str_join sep (map fst items))
      | _ \<Rightarrow> Inl TypeError)"

text \<open>
  The rows of the data frame. The columns \<^verbatim>\<open>movie_id\<close> and \<^verbatim>\<open>overview\<close> are carried
  along and never read; they are left out. The four structured columns hold cells at
  first and parsed values later; \<^verbatim>\<open>director\<close> and \<^verbatim>\<open>soup\<close> are added on the way.
\<close>

record 'a movie_row =
  title :: cell
  genres :: 'a
  "keywords" :: 'a
  cast :: 'a
  crew :: 'a

record featured_row = "pyval movie_row" +
  director :: pyval

record prepared_row = featured_row +
  soup :: ustr

text \<open>
  \<^verbatim>\<open>create_soup\<close> (lines 80-82). Adding a value that is not a text to a text raises
  \<^verbatim>\<open>TypeError\<close>.
\<close>

definition create_soup :: "'z featured_row_scheme \<Rightarrow> py_error + ustr" where
  "create_soup x =
     and_then (join [0x20] (keywords x)) (\<lambda>k.
     and_then (join [0x20] (cast x)) (\<lambda>c.
     and_then (case director x of PyStr d \<Rightarrow> Inr d | _ \<Rightarrow> Inl TypeError) (\<lambda>d.
     and_then (join [0x20] (genres x)) (\<lambda>g.
       Inr (k @ [0x20] @ c @ [0x20] @ d @ [0x20] @ g)))))"

text \<open>
  Lines 38-50 of \<^verbatim>\<open>load_and_prepare_data\<close>, on the merged frame (reading and merging
  the two files is input and output and stays outside). pandas works column by column,
  each column over all rows, in the order of the source.
  The frame holds at least one row in every statement made about this function: what
  pandas does with \<^verbatim>\<open>df.apply(create_soup, axis=1)\<close> on an empty frame is not modelled.
\<close>

definition load_and_prepare_data ::
  "('z library_scheme) \<Rightarrow> cell movie_row list \<Rightarrow> py_error + prepared_row list" where
  "load_and_prepare_data L df =
     and_then (apply_each (safe_json_loads L) (map genres df)) (\<lambda>genres1.
     and_then (apply_each (safe_json_loads L) (map keywords df)) (\<lambda>keywords1.
     and_then (apply_each (safe_json_loads L) (map cast df)) (\<lambda>cast1.
     and_then (apply_each (safe_json_loads L) (map crew df)) (\<lambda>crew1.
     and_then (apply_each get_director crew1) (\<lambda>director1.
     and_then (apply_each entity_names genres1) (\<lambda>genres2.
     and_then (apply_each entity_names keywords1) (\<lambda>keywords2.
     and_then (apply_each cast_names cast1) (\<lambda>cast2.
     and_then (apply_each (clean_data L) cast2) (\<lambda>cast3.
     and_then (apply_each (clean_data L) keywords2) (\<lambda>keywords3.
     and_then (apply_each (clean_data L) genres2) (\<lambda>genres3.
     and_then (apply_each (clean_data L) director1) (\<lambda>director3.
     (let rows =
        map (\<lambda>(t, g, k, c, w, d).
               \<lparr>title = t, genres = g, keywords = k, cast = c, crew = w, director = d\<rparr>)
            (zip (map title df) (zip genres3 (zip keywords3 (zip cast3 (zip crew1 director3)))))
      in and_then (apply_each create_soup rows) (\<lambda>soups.
           Inr (map (\<lambda>(x, s).
                      \<lparr>title = title x, genres = genres x, keywords = keywords x,
                       cast = cast x, crew = crew x, director = director x, soup = s\<rparr>)
                    (zip rows soups))))))))))))))))"

section \<open>The vectorizer and the engine (\<^verbatim>\<open>create_recommendation_engine\<close>, lines 86-93)\<close>

text \<open>
  \<^verbatim>\<open>TfidfVectorizer(stop_words='english')\<close> of scikit-learn analyses a document in three
  steps: it lowercases the text, takes the matches of the token pattern
  \<^verbatim>\<open>\b\w\w+\b\<close> (the maximal runs of at least two word characters) and removes the stop
  words. In ASCII the word characters are the letters, the digits and the underscore.
\<close>

definition is_word_char :: "('z library_scheme) \<Rightarrow> nat \<Rightarrow> bool" where
  "is_word_char L c =
     (if c < 128
      then (48 \<le> c \<and> c \<le> 57) \<or> (65 \<le> c \<and> c \<le> 90) \<or> (97 \<le> c \<and> c \<le> 122) \<or> c = 95
      else unicode_word L c)"

fun runs :: "(nat \<Rightarrow> bool) \<Rightarrow> ustr \<Rightarrow> ustr \<Rightarrow> ustr list" where
  "runs P cur [] = [cur]"
| "runs P cur (c # cs) = (if P c then runs P (cur @ [c]) cs else cur # runs P [] cs)"

definition token_pattern_findall :: "('z library_scheme) \<Rightarrow> ustr \<Rightarrow> ustr list" where
  "token_pattern_findall L doc = filter (\<lambda>w. 2 \<le> length w) (runs (is_word_char L) [] doc)"

definition build_analyzer :: "('z library_scheme) \<Rightarrow> ustr \<Rightarrow> ustr list" where
  "build_analyzer L doc =
     filter (\<lambda>w. w \<notin> set (english_stop_words L)) (token_pattern_findall L (lower L doc))"

text \<open>
  Modelled from the spec: the weights of the TF-IDF matrix and the similarity matrix,
  which scikit-learn computes (\<^verbatim>\<open>TfidfVectorizer.fit_transform\<close>, \<^verbatim>\<open>linear_kernel\<close>)
  and \<^verbatim>\<open>src/\<close> does not hold. Sections 4.3 and 4.4 of the spec: the weight of a term in
  a document is its frequency in the document times its inverse document frequency,
  smoothed by one added to the document frequency (and to the number of documents, as
  the library does) before the logarithm and one added to the result; each vector is
  scaled to unit Euclidean norm (a vector of zeros stays as it is); the similarity of
  two rows is the dot product of their vectors. The numbers are real numbers: the
  rounding of floating-point arithmetic is not modelled.
\<close>

definition idf :: "ustr list list \<Rightarrow> ustr \<Rightarrow> real" where
  "idf documents t =
     ln ((1 + real (length documents)) /
         (1 + real (length (filter (\<lambda>d. t \<in> set d) documents)))) + 1"

definition tfidf_row :: "ustr list \<Rightarrow> ustr list list \<Rightarrow> ustr list \<Rightarrow> real list" where
  "tfidf_row vocabulary documents d =
     map (\<lambda>t. real (count_list d t) * idf documents t) vocabulary"

definition dot :: "real list \<Rightarrow> real list \<Rightarrow> real" where
  "dot x y = sum_list (map (\<lambda>(a, b). a * b) (zip x y))"

definition l2_normalize :: "real list \<Rightarrow> real list" where
  "l2_normalize v = (if sqrt (dot v v) = 0 then v else map (\<lambda>a. a / sqrt (dot v v)) v)"

definition linear_kernel :: "real list list \<Rightarrow> real list list \<Rightarrow> real list list" where
  "linear_kernel X Y = map (\<lambda>x. map (\<lambda>y. dot x y) Y) X"

text \<open>
  \<^verbatim>\<open>fit_transform\<close> collects the vocabulary of all documents and raises
  \<^verbatim>\<open>ValueError\<close> ("empty vocabulary; perhaps the documents only contain stop words")
  when it is empty; this is what the library does, and the program handles no
  exception.
\<close>

definition fit_transform :: "('z library_scheme) \<Rightarrow> ustr list \<Rightarrow> py_error + real list list" where
  "fit_transform L raw_documents =
     (let documents = map (build_analyzer L) raw_documents;
          vocabulary = remdups (concat documents)
      in if vocabulary = [] then Inl ValueError
         else Inr (map (\<lambda>d. l2_normalize (tfidf_row vocabulary documents d)) documents))"

text \<open>
  \<^verbatim>\<open>create_recommendation_engine\<close>. The column \<^verbatim>\<open>soup\<close> holds texts, on which
  \<^verbatim>\<open>fillna('')\<close> changes nothing.
\<close>

definition create_recommendation_engine ::
  "('z library_scheme) \<Rightarrow> 'y prepared_row_scheme list \<Rightarrow>
   py_error + real list list \<times> nat series" where
  "create_recommendation_engine L df =
     (case fit_transform L (map soup df) of
        Inl e \<Rightarrow> Inl e
      | Inr tfidf_matrix \<Rightarrow>
          Inr (linear_kernel tfidf_matrix tfidf_matrix, title_indices (map title df)))"

section \<open>Auxiliary facts\<close>

subsection \<open>Dot products and unit vectors\<close>

lemma dot_Nil [simp]: "dot [] y = 0" "dot x [] = 0"
  by (simp_all add: dot_def)

lemma dot_Cons [simp]: "dot (a # x) (b # y) = a * b + dot x y"
  by (simp add: dot_def)








lemma length_l2_normalize [simp]: "length (l2_normalize v) = length v"
  by (simp add: l2_normalize_def)




subsection \<open>The weights\<close>



lemma length_tfidf_row [simp]: "length (tfidf_row vocabulary documents d) = length vocabulary"
  by (simp add: tfidf_row_def)




subsection \<open>The title index and the ranking\<close>

lemma drop_duplicates_seen_distinct:
  "distinct (map snd ps) \<Longrightarrow> set (map snd ps) \<inter> set seen = {} \<Longrightarrow>
   drop_duplicates_seen seen ps = ps"
proof (induction ps arbitrary: seen)
  case Nil
  then show ?case by simp
next
  case (Cons p ps)
  obtain k v where p: "p = (k, v)" by (cases p)
  from Cons.prems p have fresh: "v \<notin> set seen" and d: "distinct (map snd ps)"
    and v: "v \<notin> set (map snd ps)" and rest: "set (map snd ps) \<inter> set seen = {}"
    by auto
  from v rest have "set (map snd ps) \<inter> set (v # seen) = {}" by auto
  with Cons.IH [OF d] have "drop_duplicates_seen (v # seen) ps = ps" by blast
  with fresh p show ?case by simp
qed

text \<open>
  The row labels are pairwise different, so \<^verbatim>\<open>drop_duplicates\<close> removes nothing: the
  index holds every row, under its title, whether the title repeats or not.
\<close>

lemma title_indices_all_rows:
  "title_indices titles = zip titles [0..<length titles]"
  unfolding title_indices_def drop_duplicates_def
  by (rule drop_duplicates_seen_distinct) simp_all

lemma keys_title_indices: "keys (title_indices titles) = titles"
  by (simp add: title_indices_all_rows keys_def)

lemma set_sorted_reverse: "set (sorted_reverse f xs) = set xs"
  by (simp add: sorted_reverse_def)

lemma length_sorted_reverse: "length (sorted_reverse f xs) = length xs"
  by (simp add: sorted_reverse_def)

text \<open>
  For a title that occurs once, the result is the titles of the entries at the positions
  2 to 11 of the stable descending ranking of all rows, the row of the query included;
  these are \<open>min 10 (n - 1)\<close> titles for a row of \<open>n\<close> scores.
\<close>

lemma get_recommendations_ranking:
  assumes "series_contains indices query"
    and "series_getitem indices query = Inr (Scalar idx)"
    and "idx < length cosine_sim"
    and "length (cosine_sim ! idx) \<le> length df_title"
  shows "get_recommendations L query cosine_sim indices df_title =
         Inr (Titles (map (\<lambda>p. df_title ! fst p)
                (take 10 (drop 1 (sorted_reverse snd (enumerate 0 (cosine_sim ! idx)))))))"
proof -
  let ?top = "take 10 (drop 1 (sorted_reverse snd (enumerate 0 (cosine_sim ! idx))))"
  have "set ?top \<subseteq> set (enumerate 0 (cosine_sim ! idx))"
    using set_take_subset set_drop_subset set_sorted_reverse by fast
  then have "\<forall>p \<in> set ?top. fst p < length df_title"
    using assms(4) by (auto simp: in_set_enumerate_eq)
  then have "iloc df_title (map fst ?top) = Inr (map (\<lambda>p. df_title ! fst p) ?top)"
    by (simp add: iloc_def list_all_iff comp_def)
  with assms(1-3) show ?thesis
    by (simp add: get_recommendations_def Let_def)
qed

lemma length_ranking:
  "length (take 10 (drop 1 (sorted_reverse snd (enumerate 0 row)))) = min 10 (length row - 1)"
  by (simp add: length_sorted_reverse)

text \<open>The scan of line 98 succeeds exactly when every label is a text.\<close>

lemma matching_titles_texts:
  "(\<exists>ms. matching_titles L query ks = Inr ms) \<longleftrightarrow> list_all (\<lambda>t. \<exists>s. t = CellStr s) ks"
proof (induction ks)
  case Nil
  then show ?case by simp
next
  case (Cons t ks)
  then show ?case by (cases t) (auto split: sum.splits)
qed

lemma matching_titles_error: "matching_titles L query ks = Inl e \<Longrightarrow> e = AttributeError"
proof (induction ks)
  case Nil
  then show ?case by simp
next
  case (Cons t ks)
  then show ?case by (cases t) (auto split: sum.splits)
qed

lemma matching_titles_filter:
  "matching_titles L query (map CellStr ss) =
   Inr (filter (\<lambda>s. lower L s = lower L query) ss)"
  by (induction ss) simp_all

lemma matching_titles_member:
  "matching_titles L query ks = Inr ms \<Longrightarrow> m \<in> set ms \<Longrightarrow> CellStr m \<in> set ks"
proof (induction ks arbitrary: ms)
  case Nil
  then show ?case by simp
next
  case (Cons t ks)
  then show ?case by (cases t) (auto split: sum.splits if_splits)
qed

text \<open>
  A query that is no key of the index behaves as the first key that equals it up to
  letter case, in the order of the index; when no key does, and every title is a text,
  the answer is the message that names the query.
\<close>

lemma get_recommendations_fallback:
  assumes "\<not> series_contains indices query"
    and "matching_titles L query (keys indices) = Inr (t # ts)"
  shows "get_recommendations L query cosine_sim indices df_title =
         get_recommendations L t cosine_sim indices df_title"
proof -
  from matching_titles_member [OF assms(2), of t] have "CellStr t \<in> set (keys indices)"
    by simp
  then have "series_contains indices t" by (simp add: series_contains_def keys_def)
  with assms show ?thesis by (simp add: get_recommendations_def)
qed

lemma get_recommendations_message:
  assumes "\<not> series_contains indices query"
    and "matching_titles L query (keys indices) = Inr []"
  shows "get_recommendations L query cosine_sim indices df_title =
         Inr (Message (str ''Sorry, the movie '' @ [0x27] @ query @ [0x27] @
                       str '' was not found in our database.''))"
  using assms by (simp add: get_recommendations_def not_found_message_def)

subsection \<open>Exceptions as values\<close>

lemma and_then_Inr: "and_then r f = Inr y \<longleftrightarrow> (\<exists>x. r = Inr x \<and> f x = Inr y)"
  by (cases r) (simp_all add: and_then_def)

lemma apply_each_list_all2:
  "apply_each f xs = Inr ys \<longleftrightarrow> list_all2 (\<lambda>x y. f x = Inr y) xs ys"
proof (induction xs arbitrary: ys)
  case Nil
  then show ?case by auto
next
  case (Cons x xs)
  show ?case
    by (cases ys) (auto simp: Cons.IH [symmetric] split: sum.splits)
qed

lemma apply_each_const:
  "list_all (\<lambda>x. f x = Inr y) xs \<Longrightarrow> apply_each f xs = Inr (replicate (length xs) y)"
  by (induction xs) simp_all





lemma replace_substitute: "replace 0x27 [0x22] s = substitute s"
  by (induction s) (simp_all add: replace_def substitute_def)

lemma replace_remove: "replace c [] s = filter (\<lambda>x. x \<noteq> c) s"
  by (induction s) (simp_all add: replace_def)

subsection \<open>Lowercasing\<close>

text \<open>
  Two properties of \<^verbatim>\<open>str.lower\<close> that the model cannot compute outside ASCII and takes
  as properties of the library: lowercasing a text without a space gives a text without
  a space, and what lowercasing returns is lowercase, which is to say that lowercasing
  it again changes nothing.
\<close>

definition keeps_space_free :: "('z library_scheme) \<Rightarrow> bool" where
  "keeps_space_free L = (\<forall>s. 0x20 \<notin> set s \<longrightarrow> 0x20 \<notin> set (unicode_lower L s))"



lemma ascii_lower_space: "ascii_lower c = 0x20 \<longleftrightarrow> c = 0x20"
  by (auto simp: ascii_lower_def)



lemma lower_space_free:
  assumes "keeps_space_free L" and "0x20 \<notin> set s"
  shows "0x20 \<notin> set (lower L s)"
proof (cases "list_all (\<lambda>c. c < 128) s")
  case True
  show ?thesis
  proof
    assume "0x20 \<in> set (lower L s)"
    with True obtain c where "c \<in> set s" and "ascii_lower c = 0x20"
      by (auto simp: lower_def)
    with assms(2) show False by (auto simp: ascii_lower_space)
  qed
next
  case False
  with assms show ?thesis by (simp add: lower_def keeps_space_free_def)
qed



lemma normalize_token_no_space:
  "keeps_space_free L \<Longrightarrow> 0x20 \<notin> set (normalize_token L s)"
  unfolding normalize_token_def by (rule lower_space_free) (simp_all add: replace_remove)



lemma normalize_token_Nil: "normalize_token L [] = []"
  by (simp add: normalize_token_def replace_def lower_def)

lemma normalize_token_filter:
  "normalize_token L s = lower L (filter (\<lambda>c. c \<noteq> 0x20) s)"
  by (simp add: normalize_token_def replace_remove)



subsection \<open>The prepared rows\<close>

lemma apply_each_nth:
  assumes "apply_each f xs = Inr ys" and "i < length xs"
  shows "length ys = length xs" and "f (xs ! i) = Inr (ys ! i)"
  using assms by (auto simp: apply_each_list_all2 dest: list_all2_lengthD list_all2_nthD)

text \<open>What one row of a successfully prepared frame went through.\<close>

lemma load_and_prepare_data_row:
  assumes ok: "load_and_prepare_data L df = Inr prepared" and i: "i < length df"
  shows "length prepared = length df"
    and "title (prepared ! i) = title (df ! i)"
    and "and_then (and_then (safe_json_loads L (genres (df ! i))) entity_names) (clean_data L) =
         Inr (genres (prepared ! i))"
    and "and_then (and_then (safe_json_loads L (keywords (df ! i))) entity_names) (clean_data L) =
         Inr (keywords (prepared ! i))"
    and "and_then (and_then (safe_json_loads L (cast (df ! i))) cast_names) (clean_data L) =
         Inr (cast (prepared ! i))"
    and "and_then (and_then (safe_json_loads L (crew (df ! i))) get_director) (clean_data L) =
         Inr (director (prepared ! i))"
    and "safe_json_loads L (crew (df ! i)) = Inr (crew (prepared ! i))"
    and "create_soup (prepared ! i) = Inr (soup (prepared ! i))"
proof -
  from ok obtain genres1 keywords1 cast1 crew1 director1 genres2 keywords2 cast2
      cast3 keywords3 genres3 director3 soups
    where g1: "apply_each (safe_json_loads L) (map genres df) = Inr genres1"
      and k1: "apply_each (safe_json_loads L) (map keywords df) = Inr keywords1"
      and c1: "apply_each (safe_json_loads L) (map cast df) = Inr cast1"
      and w1: "apply_each (safe_json_loads L) (map crew df) = Inr crew1"
      and d1: "apply_each get_director crew1 = Inr director1"
      and g2: "apply_each entity_names genres1 = Inr genres2"
      and k2: "apply_each entity_names keywords1 = Inr keywords2"
      and c2: "apply_each cast_names cast1 = Inr cast2"
      and c3: "apply_each (clean_data L) cast2 = Inr cast3"
      and k3: "apply_each (clean_data L) keywords2 = Inr keywords3"
      and g3: "apply_each (clean_data L) genres2 = Inr genres3"
      and d3: "apply_each (clean_data L) director1 = Inr director3"
      and s: "apply_each create_soup
                (map (\<lambda>(t, g, k, c, w, d).
                        \<lparr>title = t, genres = g, keywords = k, cast = c, crew = w, director = d\<rparr>)
                  (zip (map title df)
                    (zip genres3 (zip keywords3 (zip cast3 (zip crew1 director3)))))) = Inr soups"
      and p: "prepared =
                map (\<lambda>(x, s).
                      \<lparr>title = title x, genres = genres x, keywords = keywords x,
                       cast = cast x, crew = crew x, director = director x, soup = s\<rparr>)
                  (zip (map (\<lambda>(t, g, k, c, w, d).
                        \<lparr>title = t, genres = g, keywords = k, cast = c, crew = w, director = d\<rparr>)
                  (zip (map title df)
                    (zip genres3 (zip keywords3 (zip cast3 (zip crew1 director3)))))) soups)"
    unfolding load_and_prepare_data_def and_then_Inr Let_def by auto
  note facts = g1 k1 c1 w1 d1 g2 k2 c2 c3 k3 g3 d3
  have len: "length genres1 = length df" "length keywords1 = length df"
    "length cast1 = length df" "length crew1 = length df" "length director1 = length df"
    "length genres2 = length df" "length keywords2 = length df" "length cast2 = length df"
    "length cast3 = length df" "length keywords3 = length df" "length genres3 = length df"
    "length director3 = length df"
    using facts by (auto simp: apply_each_list_all2 dest!: list_all2_lengthD)
  from s len have lens: "length soups = length df"
    by (auto simp: apply_each_list_all2 dest!: list_all2_lengthD)
  from p len lens show "length prepared = length df" by simp
  have n: "\<And>f xs ys. apply_each f xs = Inr ys \<Longrightarrow> length xs = length df \<Longrightarrow>
      f (xs ! i) = Inr (ys ! i)"
    using i by (auto simp: apply_each_list_all2 dest: list_all2_nthD)
  from n [OF s] len i have soup_i:
    "create_soup \<lparr>title = title (df ! i), genres = genres3 ! i, keywords = keywords3 ! i,
        cast = cast3 ! i, crew = crew1 ! i, director = director3 ! i\<rparr> = Inr (soups ! i)"
    by simp
  have row: "prepared ! i =
      \<lparr>title = title (df ! i), genres = genres3 ! i, keywords = keywords3 ! i,
       cast = cast3 ! i, crew = crew1 ! i, director = director3 ! i, soup = soups ! i\<rparr>"
    using p len lens i by simp
  show "create_soup (prepared ! i) = Inr (soup (prepared ! i))"
    using soup_i by (simp add: row create_soup_def)
  show "title (prepared ! i) = title (df ! i)"
    by (simp add: row)
  from n [OF g1] n [OF k1] n [OF c1] n [OF w1] i
  have parsed: "safe_json_loads L (genres (df ! i)) = Inr (genres1 ! i)"
    "safe_json_loads L (keywords (df ! i)) = Inr (keywords1 ! i)"
    "safe_json_loads L (cast (df ! i)) = Inr (cast1 ! i)"
    "safe_json_loads L (crew (df ! i)) = Inr (crew1 ! i)"
    by simp_all
  from parsed(4) show "safe_json_loads L (crew (df ! i)) = Inr (crew (prepared ! i))"
    by (simp add: row)
  from parsed(1) n [OF g2] n [OF g3] len
  show "and_then (and_then (safe_json_loads L (genres (df ! i))) entity_names) (clean_data L) =
         Inr (genres (prepared ! i))"
    by (simp add: row and_then_def)
  from parsed(2) n [OF k2] n [OF k3] len
  show "and_then (and_then (safe_json_loads L (keywords (df ! i))) entity_names) (clean_data L) =
         Inr (keywords (prepared ! i))"
    by (simp add: row and_then_def)
  from parsed(3) n [OF c2] n [OF c3] len
  show "and_then (and_then (safe_json_loads L (cast (df ! i))) cast_names) (clean_data L) =
         Inr (cast (prepared ! i))"
    by (simp add: row and_then_def)
  from parsed(4) n [OF d1] n [OF d3] len
  show "and_then (and_then (safe_json_loads L (crew (df ! i))) get_director) (clean_data L) =
         Inr (director (prepared ! i))"
    by (simp add: row and_then_def)
qed



lemma apply_each_clean_item:
  "apply_each (clean_item L) xs = Inr ys \<Longrightarrow>
   \<exists>names. xs = map PyStr names \<and> ys = map (\<lambda>n. PyStr (normalize_token L n)) names"
proof (induction xs arbitrary: ys)
  case Nil
  then show ?case by simp
next
  case (Cons x xs)
  from Cons.prems obtain y ys' where y: "clean_item L x = Inr y"
    and ys': "apply_each (clean_item L) xs = Inr ys'" and ys: "ys = y # ys'"
    by (auto split: sum.splits)
  from y obtain n where n: "x = PyStr n" "y = PyStr (normalize_token L n)"
    by (auto simp: clean_item_def split: pyval.splits)
  from Cons.IH [OF ys'] obtain names where
    "xs = map PyStr names" "ys' = map (\<lambda>n. PyStr (normalize_token L n)) names" by blast
  with n ys have "x # xs = map PyStr (n # names) \<and>
    ys = map (\<lambda>n. PyStr (normalize_token L n)) (n # names)" by simp
  then show ?case by (rule exI)
qed

lemma clean_data_of_list:
  "clean_data L (PyList xs) = Inr y \<Longrightarrow>
   \<exists>names. xs = map PyStr names \<and> y = PyList (map (\<lambda>n. PyStr (normalize_token L n)) names)"
  by (auto simp: clean_data_def and_then_Inr dest: apply_each_clean_item)

lemma entity_names_list: "entity_names x = Inr y \<Longrightarrow> \<exists>ns. y = PyList ns"
  by (auto simp: entity_names_def and_then_Inr split: pyval.splits)

lemma cast_names_list: "cast_names x = Inr y \<Longrightarrow> \<exists>ns. y = PyList ns \<and> length ns \<le> 3"
  by (auto simp: cast_names_def and_then_Inr apply_each_list_all2 split: pyval.splits
      dest!: list_all2_lengthD)

lemma apply_each_join_item: "apply_each join_item (map PyStr ss) = Inr ss"
  by (induction ss) (simp_all add: join_item_def)

lemma join_strs: "join sep (PyList (map PyStr ss)) = Inr (str_join sep ss)"
  by (simp add: join_def apply_each_join_item and_then_def)

lemma join_mapped:
  "join sep (PyList (map (\<lambda>n. PyStr (f n)) ns)) = Inr (str_join sep (map f ns))"
  using join_strs [of sep "map f ns"] by (simp add: comp_def)

lemma create_soup_director:
  "create_soup x = Inr s \<Longrightarrow> \<exists>d. director x = PyStr d"
  by (auto simp: create_soup_def and_then_Inr split: pyval.splits)

text \<open>A text that \<^verbatim>\<open>clean_data\<close> returns is a normalized token.\<close>

lemma clean_data_to_str:
  "clean_data L x = Inr (PyStr d) \<Longrightarrow> \<exists>d0. d = normalize_token L d0"
proof (cases x)
  case (PyStr s)
  assume "clean_data L x = Inr (PyStr d)"
  with PyStr have "d = normalize_token L s" by (simp add: clean_data_def)
  then show ?thesis by (rule exI)
next
  case (PyList xs)
  assume "clean_data L x = Inr (PyStr d)"
  with PyList show ?thesis by (auto dest: clean_data_of_list)
qed (auto simp: clean_data_def intro: exI [of _ "[]"] normalize_token_Nil [symmetric])

lemma str_join_append:
  "xs \<noteq> [] \<Longrightarrow> ys \<noteq> [] \<Longrightarrow> str_join sep (xs @ ys) = str_join sep xs @ sep @ str_join sep ys"
  by (induction sep xs rule: str_join.induct) (auto simp: neq_Nil_conv)

lemma str_join_Cons:
  "ys \<noteq> [] \<Longrightarrow> str_join sep (x # ys) = x @ sep @ str_join sep ys"
  by (cases ys) simp_all

text \<open>
  The tokens of a prepared row: every name of the three list columns and the director
  went through \<open>normalize_token\<close>, each on its own, the cast holds at most three names,
  and the soup is built from them.
\<close>

lemma prepared_row_tokens:
  assumes ok: "load_and_prepare_data L df = Inr prepared" and i: "i < length df"
  obtains kn cn gn dn where
    "keywords (prepared ! i) = PyList (map PyStr (map (normalize_token L) kn))"
    "cast (prepared ! i) = PyList (map PyStr (map (normalize_token L) cn))"
    "length cn \<le> 3"
    "genres (prepared ! i) = PyList (map PyStr (map (normalize_token L) gn))"
    "director (prepared ! i) = PyStr (normalize_token L dn)"
    "soup (prepared ! i) =
       str_join [0x20] (map (normalize_token L) kn) @ [0x20] @
       str_join [0x20] (map (normalize_token L) cn) @ [0x20] @
       normalize_token L dn @ [0x20] @
       str_join [0x20] (map (normalize_token L) gn)"
proof -
  note row = load_and_prepare_data_row [OF ok i]
  from row(3) obtain g g' where
    g': "entity_names g = Inr g'" and cg: "clean_data L g' = Inr (genres (prepared ! i))"
    by (auto simp: and_then_Inr)
  from row(4) obtain k k' where
    k': "entity_names k = Inr k'" and ck: "clean_data L k' = Inr (keywords (prepared ! i))"
    by (auto simp: and_then_Inr)
  from row(5) obtain c c' where
    c': "cast_names c = Inr c'" and cc: "clean_data L c' = Inr (cast (prepared ! i))"
    by (auto simp: and_then_Inr)
  from row(6) obtain d0 where
    cd: "clean_data L d0 = Inr (director (prepared ! i))"
    by (auto simp: and_then_Inr)
  note sp = row(8)
  from entity_names_list [OF g'] cg obtain gn where
    gs: "genres (prepared ! i) = PyList (map PyStr (map (normalize_token L) gn))"
    by (auto dest!: clean_data_of_list simp: comp_def)
  from entity_names_list [OF k'] ck obtain kn where
    ks: "keywords (prepared ! i) = PyList (map PyStr (map (normalize_token L) kn))"
    by (auto dest!: clean_data_of_list simp: comp_def)
  from cast_names_list [OF c'] cc obtain cn where
    cs: "cast (prepared ! i) = PyList (map PyStr (map (normalize_token L) cn))"
    and l: "length cn \<le> 3"
    by (auto dest!: clean_data_of_list simp: comp_def)
  from create_soup_director [OF sp] obtain d where d: "director (prepared ! i) = PyStr d"
    by blast
  with cd obtain dn where dn: "d = normalize_token L dn"
    by (auto dest: clean_data_to_str)
  from sp have "soup (prepared ! i) =
      str_join [0x20] (map (normalize_token L) kn) @ [0x20] @
      str_join [0x20] (map (normalize_token L) cn) @ [0x20] @
      normalize_token L dn @ [0x20] @
      str_join [0x20] (map (normalize_token L) gn)"
    by (simp add: create_soup_def gs ks cs d dn join_mapped and_then_def comp_def)
  with ks cs l gs d dn show thesis by (auto intro: that)
qed

text \<open>
  A frame of films without metadata: the four cells of every row are missing. Every
  row is prepared to empty lists, an empty director and the soup of three spaces.
\<close>

definition no_metadata :: "cell movie_row \<Rightarrow> bool" where
  "no_metadata r = (isna (genres r) \<and> isna (keywords r) \<and> isna (cast r) \<and> isna (crew r))"

lemma and_then_unit: "and_then (Inr x) f = f x"
  by (simp add: and_then_def)

lemma apply_each_replicate:
  "f y = Inr z \<Longrightarrow> apply_each f (replicate n y) = Inr (replicate n z)"
  by (induction n) simp_all

lemma apply_each_map_const:
  "list_all (\<lambda>x. f (g x) = Inr y) xs \<Longrightarrow>
   apply_each f (map g xs) = Inr (replicate (length xs) y)"
  by (induction xs) simp_all

lemma zip_replicate_right: "zip xs (replicate (length xs) y) = map (\<lambda>x. (x, y)) xs"
  by (induction xs) simp_all

lemma no_metadata_prepared:
  assumes "list_all no_metadata df"
  shows "load_and_prepare_data L df =
         Inr (map (\<lambda>r. \<lparr>title = title r, genres = PyList [], keywords = PyList [],
                         cast = PyList [], crew = PyList [], director = PyStr [],
                         soup = [0x20, 0x20, 0x20]\<rparr>) df)"
proof -
  let ?n = "length df"
  have parse: "apply_each (safe_json_loads L) (map col df) = Inr (replicate ?n (PyList []))"
    if "list_all (\<lambda>r. isna (col r)) df" for col :: "cell movie_row \<Rightarrow> cell"
    using that by (intro apply_each_map_const) (simp add: safe_json_loads_def list_all_iff)
  from assms have
    g: "apply_each (safe_json_loads L) (map genres df) = Inr (replicate ?n (PyList []))" and
    k: "apply_each (safe_json_loads L) (map keywords df) = Inr (replicate ?n (PyList []))" and
    c: "apply_each (safe_json_loads L) (map cast df) = Inr (replicate ?n (PyList []))" and
    w: "apply_each (safe_json_loads L) (map crew df) = Inr (replicate ?n (PyList []))"
    by (auto intro!: parse simp: no_metadata_def list_all_iff)
  have d: "apply_each get_director (replicate ?n (PyList [])) = Inr (replicate ?n (PyStr []))"
    by (rule apply_each_replicate) (simp add: get_director_def)
  have e: "apply_each entity_names (replicate ?n (PyList [])) = Inr (replicate ?n (PyList []))"
    by (rule apply_each_replicate) (simp add: entity_names_def and_then_def)
  have a: "apply_each cast_names (replicate ?n (PyList [])) = Inr (replicate ?n (PyList []))"
    by (rule apply_each_replicate) (simp add: cast_names_def and_then_def)
  have cl: "apply_each (clean_data L) (replicate ?n (PyList [])) = Inr (replicate ?n (PyList []))"
    by (rule apply_each_replicate) (simp add: clean_data_def and_then_def)
  have cd: "apply_each (clean_data L) (replicate ?n (PyStr [])) = Inr (replicate ?n (PyStr []))"
    by (rule apply_each_replicate) (simp add: clean_data_def normalize_token_Nil)
  let ?row = "\<lambda>t. \<lparr>title = t, genres = PyList [], keywords = PyList [], cast = PyList [],
                     crew = PyList [], director = PyStr []\<rparr>"
  have rows: "map (\<lambda>(t, g, k, c, w, d).
                 \<lparr>title = t, genres = g, keywords = k, cast = c, crew = w, director = d\<rparr>)
              (zip (map title df)
                 (zip (replicate ?n (PyList [])) (zip (replicate ?n (PyList []))
                    (zip (replicate ?n (PyList []))
                       (zip (replicate ?n (PyList [])) (replicate ?n (PyStr []))))))) =
              map (\<lambda>r. ?row (title r)) df"
    by (induction df) simp_all
  have soups: "apply_each create_soup (map (\<lambda>r. ?row (title r)) df) =
               Inr (replicate ?n [0x20, 0x20, 0x20])"
    by (rule apply_each_map_const)
       (simp add: list_all_iff create_soup_def join_def and_then_def)
  have final: "map (\<lambda>(x, s). \<lparr>title = title x, genres = genres x, keywords = keywords x,
                       cast = cast x, crew = crew x, director = director x, soup = s\<rparr>)
                 (zip (map (\<lambda>r. ?row (title r)) df) (replicate ?n [0x20, 0x20, 0x20])) =
               map (\<lambda>r. \<lparr>title = title r, genres = PyList [], keywords = PyList [],
                         cast = PyList [], crew = PyList [], director = PyStr [],
                         soup = [0x20, 0x20, 0x20]\<rparr>) df"
    by (induction df) simp_all
  show ?thesis
    unfolding load_and_prepare_data_def
    by (simp only: g k c w d e a cl cd and_then_unit rows soups final Let_def)
qed

subsection \<open>Soups without a token\<close>

text \<open>
  In the words of the specification, a soup is empty or entirely stop words: each of
  the words between its spaces, in lowercase, is empty or is a stop word (a word of the
  list, made of word characters).
\<close>

definition only_stop_words :: "('z library_scheme) \<Rightarrow> ustr \<Rightarrow> bool" where
  "only_stop_words L doc =
     list_all (\<lambda>w. w = [] \<or> (list_all (is_word_char L) w \<and> w \<in> set (english_stop_words L)))
       (runs (\<lambda>c. c \<noteq> 0x20) [] (lower L doc))"

lemma runs_chars:
  "set (concat (runs Q cur doc)) = set cur \<union> {c \<in> set doc. Q c}"
  by (induction doc arbitrary: cur) auto

lemma runs_cong:
  "(\<And>c. c \<in> set doc \<Longrightarrow> P c = Q c) \<Longrightarrow> runs P cur doc = runs Q cur doc"
  by (induction doc arbitrary: cur) simp_all

lemma space_no_word_char: "\<not> is_word_char L 0x20"
  by (simp add: is_word_char_def)

lemma only_stop_words_no_token:
  assumes "only_stop_words L doc"
  shows "build_analyzer L doc = []"
proof -
  let ?ws = "runs (\<lambda>c. c \<noteq> 0x20) [] (lower L doc)"
  from assms have ws: "\<And>w. w \<in> set ?ws \<Longrightarrow>
      w = [] \<or> (list_all (is_word_char L) w \<and> w \<in> set (english_stop_words L))"
    by (simp add: only_stop_words_def list_all_iff)
  have "is_word_char L c = (c \<noteq> 0x20)" if c: "c \<in> set (lower L doc)" for c
  proof (cases "c = 0x20")
    case True
    then show ?thesis by (simp add: space_no_word_char)
  next
    case False
    have chars: "set (concat ?ws) = {c \<in> set (lower L doc). c \<noteq> 0x20}"
      by (subst runs_chars) simp
    from c False have "c \<in> {c \<in> set (lower L doc). c \<noteq> 0x20}" by simp
    then have "c \<in> set (concat ?ws)" by (simp only: chars)
    then obtain w where "w \<in> set ?ws" and "c \<in> set w" by auto
    with ws [of w] have "is_word_char L c" by (auto simp: list_all_iff)
    with False show ?thesis by simp
  qed
  then have "runs (is_word_char L) [] (lower L doc) = ?ws" by (rule runs_cong)
  moreover have "w \<in> set (english_stop_words L)" if "w \<in> set ?ws" and "2 \<le> length w" for w
    using ws [OF that(1)] that(2) by auto
  then have "filter (\<lambda>w. w \<notin> set (english_stop_words L))
      (filter (\<lambda>w. 2 \<le> length w) ?ws) = []"
    by (auto simp: filter_empty_conv)
  ultimately show ?thesis by (simp add: build_analyzer_def token_pattern_findall_def)
qed

subsection \<open>The engine\<close>

lemma engine_value_error:
  "create_recommendation_engine L df = Inl ValueError \<longleftrightarrow>
   list_all (\<lambda>x. build_analyzer L (soup x) = []) df"
  by (auto simp: create_recommendation_engine_def fit_transform_def Let_def list_all_iff
      split: sum.splits)


lemma no_metadata_engine:
  assumes "list_all no_metadata raw"
  shows "and_then (load_and_prepare_data L raw) (create_recommendation_engine L) =
         Inl ValueError"
proof -
  have "build_analyzer L [0x20, 0x20, 0x20] = []"
    by (simp add: build_analyzer_def token_pattern_findall_def is_word_char_def lower_def
        ascii_lower_def)
  then have "list_all (\<lambda>x. build_analyzer L (soup x) = [])
      (map (\<lambda>r. \<lparr>title = title r, genres = PyList [], keywords = PyList [],
                   cast = PyList [], crew = PyList [], director = PyStr [],
                   soup = [0x20, 0x20, 0x20]\<rparr>) raw)"
    by (simp add: list_all_iff)
  then show ?thesis
    by (simp only: no_metadata_prepared [OF assms] and_then_unit engine_value_error)
qed

subsection \<open>Texts on which \<^verbatim>\<open>json.loads\<close> raises another exception\<close>

text \<open>
  More opening brackets than the interpreter allows levels end in \<^verbatim>\<open>RecursionError\<close>,
  an integer of more than 4300 digits ends in \<^verbatim>\<open>ValueError\<close>; neither is caught by
  \<^verbatim>\<open>safe_json_loads\<close>.
\<close>

lemma decode_deep_nesting:
  "ex = Value \<or> ex = ValueOrClose \<Longrightarrow> limit \<le> length stack + n \<Longrightarrow>
   decode limit stack ex (replicate (Suc n) 0x5B) = Inl RecursionError"
proof (induction n arbitrary: stack ex)
  case 0
  then show ?case by (auto simp: is_whitespace_def next_step_def scan_once_def)
next
  case (Suc n)
  show ?case
  proof (cases "limit \<le> length stack")
    case True
    with Suc.prems(1) show ?thesis
      by (auto simp: is_whitespace_def next_step_def scan_once_def)
  next
    case False
    from Suc.prems(2) have "limit \<le> length (OpenList [] # stack) + n" by simp
    with Suc.IH [of ValueOrClose "OpenList [] # stack"]
    have "decode limit (OpenList [] # stack) ValueOrClose (replicate (Suc n) 0x5B) =
          Inl RecursionError" by blast
    with False Suc.prems(1) show ?thesis
      by (auto simp: is_whitespace_def next_step_def scan_once_def)
  qed
qed

lemma safe_json_loads_deep_nesting:
  assumes "recursion_limit L < n"
  shows "safe_json_loads L (CellStr (replicate n 0x5B)) = Inl RecursionError"
proof -
  from assms obtain m where n: "n = Suc m"
    and m: "recursion_limit L \<le> length ([] :: container list) + m"
    by (cases n) auto
  from decode_deep_nesting [OF _ m, of Value]
  have "json_loads L (replicate n 0x5B) = Inl RecursionError"
    by (simp add: json_loads_def n)
  moreover have "replace 0x27 [0x22] (replicate n 0x5B) = replicate n 0x5B"
    by (simp add: replace_substitute substitute_def)
  ultimately show ?thesis by (simp add: safe_json_loads_def isna_def)
qed

lemma safe_json_loads_long_integer:
  assumes "int_max_str_digits < n"
  shows "safe_json_loads L (CellStr (replicate n 0x31)) = Inl ValueError"
proof -
  from assms obtain m where n: "n = Suc m" by (cases n) auto
  have digits: "takeWhile is_digit (replicate m 0x31) = replicate m 0x31"
    "dropWhile is_digit (replicate m 0x31) = []"
    by (simp_all add: is_digit_def takeWhile_eq_all_conv dropWhile_eq_Nil_conv)
  have "match_number (replicate n 0x31) = Inl ValueError"
    using assms
    by (simp add: n match_number_def sign_span_def int_span_def frac_span_def exp_span_def
        is_digit_def digits)
  then have "scan_atom (replicate n 0x31) = Inl ValueError"
    by (simp add: n scan_atom_def literals_def str_def)
  then have "json_loads L (replicate n 0x31) = Inl ValueError"
    by (simp add: n json_loads_def is_whitespace_def next_step_def scan_once_def)
  moreover have "replace 0x27 [0x22] (replicate n 0x31) = replicate n 0x31"
    by (simp add: replace_substitute substitute_def)
  ultimately show ?thesis by (simp add: safe_json_loads_def isna_def)
qed

subsection \<open>Evaluation of the model on examples\<close>

text \<open>
  A library for the examples. On the texts of the first 256 code points it lowercases
  and recognizes word characters as Python does; its stop words are three of the stop
  words of scikit-learn; it lets lists and dictionaries nest 1000 deep.
\<close>

definition sample_library :: library where
  "sample_library =
     \<lparr>unicode_lower =
        map (\<lambda>c. if (65 \<le> c \<and> c \<le> 90) \<or> (192 \<le> c \<and> c \<le> 222 \<and> c \<noteq> 215)
                 then c + 32 else c),
      unicode_word =
        (\<lambda>c. c \<in> set [170, 178, 179, 181, 185, 186, 188, 189, 190] \<or>
              (192 \<le> c \<and> c \<le> 255 \<and> c \<noteq> 215 \<and> c \<noteq> 247)),
      english_stop_words = [str ''the'', str ''and'', str ''of''],
      recursion_limit = 1000\<rparr>"

lemma sample_library_keeps_space_free: "keeps_space_free sample_library"
  by (auto simp: keeps_space_free_def sample_library_def)


lemmas lower_eval = lower_def ascii_lower_def sample_library_def str_def

lemmas query_eval =
  get_recommendations_def title_indices_all_rows series_getitem_def series_contains_def
  keys_def sorted_reverse_def iloc_def not_found_message_def enumerate_eq_zip upt_rec

lemmas json_eval =
  json_loads_def is_whitespace_def scan_atom_def literals_def match_number_def
  sign_span_def int_span_def frac_span_def exp_span_def is_digit_def int_of_digits_def
  int_max_str_digits_def backslash_def next_step_def scan_once_def scan_key_def
  close_container_def with_rest_def

lemmas prepare_eval =
  load_and_prepare_data_def and_then_def safe_json_loads_def isna_def replace_def
  get_director_def entity_names_def cast_names_def subscript_name_def clean_data_def
  clean_item_def normalize_token_def create_soup_def join_def join_item_def

lemmas engine_eval =
  create_recommendation_engine_def fit_transform_def build_analyzer_def
  token_pattern_findall_def is_word_char_def

text \<open>
  A frame of one film, with four members of the cast and a crew whose second member is
  the director, whose name starts with the capital E with acute accent (code point 201),
  and what \<^verbatim>\<open>load_and_prepare_data\<close> makes of it.
\<close>

definition example_frame :: "cell movie_row list" where
  \<open>example_frame =
     [\<lparr>title = CellStr (str ''A''),
       genres = CellStr (str ''[{"id": 28, "name": "Action"}]''),
       keywords = CellStr (str ''[{"id": 1, "name": "hero"}]''),
       cast = CellStr
         (str ''[{"name": "X Y"}, {"name": "Z"}, {"name": "W"}, {"name": "V"}]''),
       crew = CellStr
         (str ''[{"job": "Editor", "name": "E1"}, {"job": "Director", "name": "'' @
          [0xC9] @ str ''mile Zola"}]'')\<rparr>]\<close>

definition example_prepared :: "prepared_row list" where
  "example_prepared =
     [\<lparr>title = CellStr (str ''A''),
       genres = PyList [PyStr (str ''action'')],
       keywords = PyList [PyStr (str ''hero'')],
       cast = PyList [PyStr (str ''xy''), PyStr (str ''z''), PyStr (str ''w'')],
       crew = PyList
         [PyDict [(str ''job'', PyStr (str ''Editor'')), (str ''name'', PyStr (str ''E1''))],
          PyDict [(str ''job'', PyStr (str ''Director'')),
                  (str ''name'', PyStr (0xC9 # str ''mile Zola''))]],
       director = PyStr (0xE9 # str ''milezola''),
       soup = str ''hero xy z w '' @ [0xE9] @ str ''milezola action''\<rparr>]"

lemma example_frame_prepared:
  "load_and_prepare_data sample_library example_frame = Inr example_prepared"
  by (simp add: example_frame_def example_prepared_def prepare_eval lower_eval json_eval)

text \<open>A film whose only metadata is the keyword "The", a stop word.\<close>

definition stop_word_frame :: "cell movie_row list" where
  \<open>stop_word_frame =
     [\<lparr>title = CellStr (str ''B''), genres = CellNaN,
       keywords = CellStr (str ''[{"name": "The"}]''), cast = CellNaN, crew = CellNaN\<rparr>]\<close>

definition stop_word_prepared :: "prepared_row list" where
  "stop_word_prepared =
     [\<lparr>title = CellStr (str ''B''), genres = PyList [],
       keywords = PyList [PyStr (str ''the'')], cast = PyList [], crew = PyList [],
       director = PyStr [], soup = str ''the   ''\<rparr>]"

lemma stop_word_frame_prepared:
  "load_and_prepare_data sample_library stop_word_frame = Inr stop_word_prepared"
  by (simp add: stop_word_frame_def stop_word_prepared_def prepare_eval lower_eval json_eval)

text \<open>A film without any metadata.\<close>

definition no_metadata_frame :: "cell movie_row list" where
  "no_metadata_frame =
     [\<lparr>title = CellStr (str ''C''), genres = CellNaN, keywords = CellNaN, cast = CellNaN,
       crew = CellNaN\<rparr>]"

section \<open>The claims\<close>

text \<open>
  C1 says that the recommendations never include the row of the query, that there are
  at most ten of them (fewer only in a corpus of fewer than eleven films), and that they
  are the other rows in descending order of similarity, ties in row order. The
  function drops the first entry of the ranking of all rows, whichever row that is. In
  the corpus of the films A (one keyword) and B (no metadata) every similarity of B is
  0, its own included; the stable ranking of the row of B starts with A, which is
  dropped, and the answer to the query B is B itself.
\<close>

theorem get_recommendations_returns_query_row:
  "get_recommendations L (str ''B'') [[1, 0], [0, 0 :: real]]
     (title_indices [CellStr (str ''A''), CellStr (str ''B'')])
     [CellStr (str ''A''), CellStr (str ''B'')] = Inr (Titles [CellStr (str ''B'')])"
  by (simp add: query_eval str_def)

text \<open>
  C2 says that a query that is no key of the index and equals no key up to letter case
  gets the failure that names it, and no crash. In a corpus in which a film has no
  title (the cell is \<^verbatim>\<open>NaN\<close>), the scan for a title that equals the query up to letter
  case asks the missing title for its lowercase form, and a query that matches nothing
  ends in \<^verbatim>\<open>AttributeError\<close>.
\<close>

theorem get_recommendations_missing_title_raises:
  "get_recommendations L (str ''Jaws'') [[1, 0], [0, 1 :: real]]
     (title_indices [CellNaN, CellStr (str ''Heat'')]) [CellNaN, CellStr (str ''Heat'')] =
   Inl AttributeError"
  by (simp add: query_eval str_def)

text \<open>
  C3 says that the engine still initializes when no soup holds a usable token. The
  vectorizer raises \<^verbatim>\<open>ValueError\<close> on an empty vocabulary and
  \<^verbatim>\<open>create_recommendation_engine\<close> handles no exception: initialization fails with
  \<^verbatim>\<open>ValueError\<close> exactly when every soup is without a token after lowercasing,
  tokenizing and the removal of the stop words (the empty corpus included); it fails in
  particular when every soup is empty or entirely stop words, and on every frame of
  films without metadata.
\<close>

theorem engine_fails_on_empty_vocabulary:
  "(create_recommendation_engine L df = Inl ValueError \<longleftrightarrow>
      list_all (\<lambda>x. build_analyzer L (soup x) = []) df) \<and>
   (list_all (\<lambda>x. only_stop_words L (soup x)) df \<longrightarrow>
      create_recommendation_engine L df = Inl ValueError) \<and>
   (raw \<noteq> [] \<and> list_all no_metadata raw \<longrightarrow>
      and_then (load_and_prepare_data L raw) (create_recommendation_engine L) =
      Inl ValueError)"
proof (intro conjI impI)
  show "create_recommendation_engine L df = Inl ValueError \<longleftrightarrow>
      list_all (\<lambda>x. build_analyzer L (soup x) = []) df"
    by (rule engine_value_error)
  show "create_recommendation_engine L df = Inl ValueError"
    if "list_all (\<lambda>x. only_stop_words L (soup x)) df"
    using that by (simp add: engine_value_error list_all_iff only_stop_words_no_token)
  show "and_then (load_and_prepare_data L raw) (create_recommendation_engine L) =
      Inl ValueError" if "raw \<noteq> [] \<and> list_all no_metadata raw"
    using that by (simp add: no_metadata_engine)
qed

theorem engine_fails_on_empty_vocabulary_witness:
  "list_all (\<lambda>x. only_stop_words sample_library (soup x)) stop_word_prepared \<and>
   list_all (\<lambda>x. build_analyzer sample_library (soup x) = []) stop_word_prepared \<and>
   create_recommendation_engine sample_library stop_word_prepared = Inl ValueError \<and>
   no_metadata_frame \<noteq> [] \<and> list_all no_metadata no_metadata_frame \<and>
   and_then (load_and_prepare_data sample_library no_metadata_frame)
     (create_recommendation_engine sample_library) = Inl ValueError"
proof -
  have "list_all (\<lambda>x. only_stop_words sample_library (soup x)) stop_word_prepared"
    by (simp add: stop_word_prepared_def only_stop_words_def is_word_char_def lower_eval)
  moreover have "no_metadata_frame \<noteq> [] \<and> list_all no_metadata no_metadata_frame"
    by (simp add: no_metadata_frame_def no_metadata_def isna_def)
  ultimately show ?thesis
    using engine_fails_on_empty_vocabulary
      [where L = sample_library and df = stop_word_prepared and raw = no_metadata_frame]
    by blast
qed

text \<open>
  Against C3 as it is written: the empty corpus, the corpus of one film without any
  metadata (its soup is three spaces), the corpus of one film whose only keyword is a
  stop word, and the corpus of one film whose soup is a single letter outside ASCII
  all end initialization with \<^verbatim>\<open>ValueError\<close>.
\<close>

theorem engine_empty_vocabulary_counterexample:
  "create_recommendation_engine sample_library ([] :: prepared_row list) =
     Inl ValueError \<and>
   and_then (load_and_prepare_data sample_library no_metadata_frame)
     (create_recommendation_engine sample_library) = Inl ValueError \<and>
   and_then (load_and_prepare_data sample_library stop_word_frame)
     (create_recommendation_engine sample_library) = Inl ValueError \<and>
   create_recommendation_engine sample_library
     [\<lparr>title = CellStr (str ''D''), genres = PyList [], keywords = PyList [PyStr [0xE9]],
       cast = PyList [], crew = PyList [], director = PyStr [],
       soup = [0xE9, 0x20, 0x20, 0x20]\<rparr>] = Inl ValueError"
  by (simp add: engine_eval prepare_eval lower_eval json_eval no_metadata_frame_def
      stop_word_frame_def)

text \<open>
  C4 says that a title that repeats is mapped to one row, the first. The index of a
  corpus with the title A in both rows keeps both entries, and looking the title up
  gives both rows.
\<close>

theorem title_indices_keeps_repeated_title:
  "title_indices [CellStr (str ''A''), CellStr (str ''A'')] =
     [(CellStr (str ''A''), 0), (CellStr (str ''A''), 1)] \<and>
   series_getitem (title_indices [CellStr (str ''A''), CellStr (str ''A'')]) (str ''A'') =
     Inr (SubSeries [0, 1])"
  by (simp add: title_indices_def drop_duplicates_def series_getitem_def upt_rec str_def)

text \<open>
  C5 says that the field parser raises on no raw value, whatever its shape. A cell that
  holds a number leaves \<^verbatim>\<open>safe_json_loads\<close> with \<^verbatim>\<open>AttributeError\<close>.
\<close>

theorem safe_json_loads_number_raises:
  "safe_json_loads L (CellInt 5) = Inl AttributeError"
  by (simp add: safe_json_loads_def isna_def)

text \<open>
  C6 says that a query that differs from a stored title in letter case only is resolved
  to the first such title. With the title Heat in both rows, the query heat is resolved
  to Heat, whose lookup gives two rows, and the ranking raises \<^verbatim>\<open>ValueError\<close>.
\<close>

theorem get_recommendations_repeated_title_raises:
  "get_recommendations L (str ''heat'') [[1, 1], [1, 1 :: real]]
     (title_indices [CellStr (str ''Heat''), CellStr (str ''Heat'')])
     [CellStr (str ''Heat''), CellStr (str ''Heat'')] = Inl ValueError"
  by (simp add: query_eval lower_def ascii_lower_def str_def)



text \<open>
  C8: the soup of every prepared row is its normalized keywords joined by spaces, a
  space, its normalized cast (at most three names) joined by spaces, a space, its
  normalized director, a space, and its normalized genres joined by spaces: the four
  parts in this order, joined by single spaces. When the three lists are not empty
  this is the join, by single spaces, of all the tokens in this order. The director is
  a single token: it is the lowercase form of a text without a space; and where
  lowercasing brings no space into a text, neither the director nor any other name
  holds a space.
\<close>

theorem create_soup_space_joined:
  assumes "load_and_prepare_data L df = Inr prepared" and "i < length df"
  shows "\<exists>ks cs d gs.
      keywords (prepared ! i) = PyList (map PyStr ks) \<and>
      cast (prepared ! i) = PyList (map PyStr cs) \<and> length cs \<le> 3 \<and>
      director (prepared ! i) = PyStr d \<and>
      (\<exists>d'. d = lower L d' \<and> 0x20 \<notin> set d') \<and>
      (keeps_space_free L \<longrightarrow>
         0x20 \<notin> set d \<and> list_all (\<lambda>t. 0x20 \<notin> set t) (ks @ cs @ gs)) \<and>
      genres (prepared ! i) = PyList (map PyStr gs) \<and>
      create_soup (prepared ! i) = Inr (soup (prepared ! i)) \<and>
      soup (prepared ! i) =
        str_join [0x20] ks @ [0x20] @ str_join [0x20] cs @ [0x20] @ d @ [0x20] @
        str_join [0x20] gs \<and>
      soup (prepared ! i) =
        str_join [0x20] [str_join [0x20] ks, str_join [0x20] cs, d, str_join [0x20] gs] \<and>
      (ks \<noteq> [] \<and> cs \<noteq> [] \<and> gs \<noteq> [] \<longrightarrow>
         soup (prepared ! i) = str_join [0x20] (ks @ cs @ [d] @ gs))"
proof -
  from assms obtain kn cn gn dn where row:
    "keywords (prepared ! i) = PyList (map PyStr (map (normalize_token L) kn))"
    "cast (prepared ! i) = PyList (map PyStr (map (normalize_token L) cn))"
    "length cn \<le> 3"
    "genres (prepared ! i) = PyList (map PyStr (map (normalize_token L) gn))"
    "director (prepared ! i) = PyStr (normalize_token L dn)"
    and s: "soup (prepared ! i) =
       str_join [0x20] (map (normalize_token L) kn) @ [0x20] @
       str_join [0x20] (map (normalize_token L) cn) @ [0x20] @
       normalize_token L dn @ [0x20] @
       str_join [0x20] (map (normalize_token L) gn)"
    by (rule prepared_row_tokens)
  let ?ks = "map (normalize_token L) kn" and ?cs = "map (normalize_token L) cn"
    and ?gs = "map (normalize_token L) gn" and ?d = "normalize_token L dn"
  have all: "?ks \<noteq> [] \<and> ?cs \<noteq> [] \<and> ?gs \<noteq> [] \<longrightarrow>
      soup (prepared ! i) = str_join [0x20] (?ks @ ?cs @ [?d] @ ?gs)"
    using s by (simp add: str_join_append str_join_Cons)
  have free: "keeps_space_free L \<longrightarrow>
      0x20 \<notin> set ?d \<and> list_all (\<lambda>t. 0x20 \<notin> set t) (?ks @ ?cs @ ?gs)"
    using normalize_token_no_space [of L] by (auto simp: list_all_iff)
  have "?d = lower L (filter (\<lambda>c. c \<noteq> 0x20) dn) \<and>
      0x20 \<notin> set (filter (\<lambda>c. c \<noteq> 0x20) dn)"
    by (simp add: normalize_token_filter)
  then have stripped: "\<exists>d'. ?d = lower L d' \<and> 0x20 \<notin> set d'" by (rule exI)
  from load_and_prepare_data_row(8) [OF assms]
  have "create_soup (prepared ! i) = Inr (soup (prepared ! i))" .
  with row s all free stripped show ?thesis
    by (intro exI [of _ ?ks] exI [of _ ?cs] exI [of _ ?d] exI [of _ ?gs]) simp
qed

theorem create_soup_space_joined_witness:
  "load_and_prepare_data sample_library example_frame = Inr example_prepared \<and>
   keeps_space_free sample_library \<and>
   (\<exists>ks cs d gs.
      keywords (example_prepared ! 0) = PyList (map PyStr ks) \<and>
      cast (example_prepared ! 0) = PyList (map PyStr cs) \<and> length cs \<le> 3 \<and>
      director (example_prepared ! 0) = PyStr d \<and>
      0x20 \<notin> set d \<and> list_all (\<lambda>t. 0x20 \<notin> set t) (ks @ cs @ gs) \<and>
      genres (example_prepared ! 0) = PyList (map PyStr gs) \<and>
      soup (example_prepared ! 0) =
        str_join [0x20] ks @ [0x20] @ str_join [0x20] cs @ [0x20] @ d @ [0x20] @
        str_join [0x20] gs) \<and>
   soup (example_prepared ! 0) = str ''hero xy z w '' @ [0xE9] @ str ''milezola action''"
proof -
  have len: "0 < length example_frame" by (simp add: example_frame_def)
  from create_soup_space_joined [OF example_frame_prepared len]
    sample_library_keeps_space_free
  have "\<exists>ks cs d gs.
      keywords (example_prepared ! 0) = PyList (map PyStr ks) \<and>
      cast (example_prepared ! 0) = PyList (map PyStr cs) \<and> length cs \<le> 3 \<and>
      director (example_prepared ! 0) = PyStr d \<and>
      0x20 \<notin> set d \<and> list_all (\<lambda>t. 0x20 \<notin> set t) (ks @ cs @ gs) \<and>
      genres (example_prepared ! 0) = PyList (map PyStr gs) \<and>
      soup (example_prepared ! 0) =
        str_join [0x20] ks @ [0x20] @ str_join [0x20] cs @ [0x20] @ d @ [0x20] @
        str_join [0x20] gs"
    by blast
  moreover have "soup (example_prepared ! 0) =
      str ''hero xy z w '' @ [0xE9] @ str ''milezola action''"
    by (simp add: example_prepared_def)
  ultimately show ?thesis
    using example_frame_prepared sample_library_keeps_space_free by simp
qed






text \<open>
  The failure need not be the empty list: in an interpreter that lets lists nest two
  deep, the valid JSON text \<^verbatim>\<open>["',[[["]\<close>, a list of one string with one apostrophe,
  becomes the start of three nested lists and leaves \<^verbatim>\<open>safe_json_loads\<close> with
  \<^verbatim>\<open>RecursionError\<close>.
\<close>

lemma safe_json_loads_apostrophe_recursion:
  \<open>json_loads (sample_library\<lparr>recursion_limit := 2\<rparr>) (str ''["',[[["]'') =
     Inr (PyList [PyStr ([0x27] @ str '',[[['')]) \<and>
   safe_json_loads (sample_library\<lparr>recursion_limit := 2\<rparr>) (CellStr (str ''["',[[["]'')) =
     Inl RecursionError\<close>
  by (simp add: safe_json_loads_def isna_def replace_def json_eval lower_eval)
end
